theory Spec2Isabelle
  imports Complex_Main
begin

section \<open>Numbers and buffers\<close>

text \<open>
  The page computes with JavaScript numbers. Arithmetic is modelled over the reals:
  rounding to binary64 (and to binary32 when a value is stored in a \<open>Float32Array\<close>)
  and overflow are not represented. The one non-number the model keeps is \<open>NaN\<close>,
  which is what arithmetic yields after a read outside a buffer (\<open>undefined\<close>):
  a buffer cell is a \<open>num\<close>, with \<open>None\<close> for \<open>NaN\<close>.
\<close>

type_synonym num = "real option"

definition num_add :: "num \<Rightarrow> num \<Rightarrow> num" where
  "num_add a b = (case a of None \<Rightarrow> None | Some x \<Rightarrow> (case b of None \<Rightarrow> None | Some y \<Rightarrow> Some (x + y)))"

definition num_sub :: "num \<Rightarrow> num \<Rightarrow> num" where
  "num_sub a b = (case a of None \<Rightarrow> None | Some x \<Rightarrow> (case b of None \<Rightarrow> None | Some y \<Rightarrow> Some (x - y)))"

definition num_mul :: "num \<Rightarrow> num \<Rightarrow> num" where
  "num_mul a b = (case a of None \<Rightarrow> None | Some x \<Rightarrow> (case b of None \<Rightarrow> None | Some y \<Rightarrow> Some (x * y)))"

text \<open>A comparison with \<open>NaN\<close> on either side is false.\<close>

definition num_lt :: "num \<Rightarrow> num \<Rightarrow> bool" where
  "num_lt a b = (case a of None \<Rightarrow> False | Some x \<Rightarrow> (case b of None \<Rightarrow> False | Some y \<Rightarrow> x < y))"

text \<open>
  Reading index \<open>k\<close> of a plain array of numbers (\<open>arr_get\<close>) or of a typed array
  (\<open>f32_get\<close>): outside the array the read is \<open>undefined\<close>, which every use in
  this program turns into \<open>NaN\<close>. A write outside a typed array is ignored, which is
  what \<open>xs[k := v]\<close> does.
\<close>

definition arr_get :: "real list \<Rightarrow> nat \<Rightarrow> num" where
  "arr_get xs k = (if k < length xs then Some (xs ! k) else None)"

definition f32_get :: "num list \<Rightarrow> nat \<Rightarrow> num" where
  "f32_get xs k = (if k < length xs then xs ! k else None)"

text \<open>The remainder operator \<open>%\<close> on numbers: the quotient is truncated towards zero.\<close>

definition js_rem :: "real \<Rightarrow> real \<Rightarrow> real" where
  "js_rem x y = x - y * real_of_int (if 0 \<le> x / y then \<lfloor>x / y\<rfloor> else \<lceil>x / y\<rceil>)"

section \<open>Configuration and target tables\<close>

text \<open>
  \<open>THREE.Color\<close> belongs to the graphics library; only its three channels are read.
\<close>

record rgb =
  chan_r :: real
  chan_g :: real
  chan_b :: real

text \<open>The object behind \<open>configRef.current\<close>.\<close>

record config =
  particleCount :: nat
  connectionDistance :: real
  baseSpeed :: real
  color :: rgb
  white :: rgb
  mode :: string

text \<open>The object \<open>targets\<close>: one plain array of numbers per mode.\<close>

record targets =
  graph_t :: "real list"
  orbit :: "real list"
  matrix :: "real list"
  threebody :: "real list"
  neural :: "real list"
  quant :: "real list"
  nash :: "real list"
  lorenz :: "real list"
  golden :: "real list"
  topology_t :: "real list"
  calculus :: "real list"
  series :: "real list"

definition empty_targets :: targets where
  "empty_targets = \<lparr> graph_t = [], orbit = [], matrix = [], threebody = [], neural = [],
     quant = [], nash = [], lorenz = [], golden = [], topology_t = [], calculus = [],
     series = [] \<rparr>"

section \<open>createParticles\<close>

text \<open>
  The state the loop of \<open>createParticles\<close> works on: the two typed arrays
  \<open>positions\<close> and \<open>colors\<close>, the running Lorenz point \<open>(lx, ly, lz)\<close> and the
  target tables.
\<close>

record gen =
  g_positions :: "num list"
  g_colors :: "num list"
  lx :: real
  ly :: real
  lz :: real
  tg :: targets

text \<open>
  \<open>Math.random()\<close> is an external source: \<open>rnd n\<close> is the value of its \<open>n\<close>-th call
  since \<open>createParticles\<close> started. One pass of the loop body makes eighteen calls, in the
  order of the source text, so the pass for particle \<open>i\<close> reads \<open>rnd (18 * i)\<close> to
  \<open>rnd (18 * i + 17)\<close>.
\<close>

definition particle_body :: "config \<Rightarrow> (nat \<Rightarrow> real) \<Rightarrow> nat \<Rightarrow> gen \<Rightarrow> gen" where
  "particle_body cfg rnd i st =
    (let pCount = real (particleCount cfg);
         sigma = 10; rho = 28; beta = 8 / 3; dt = 0.01;
         random = (\<lambda>k. rnd (18 * i + k));
         \<comment> \<open>1. Graph (Cloud)\<close>
         x = (random 0 - 0.5) * 40;
         y = (random 1 - 0.5) * 40;
         z = (random 2 - 0.5) * 20;
         positions1 = (g_positions st)[i * 3 := Some x, i * 3 + 1 := Some y, i * 3 + 2 := Some z];
         graph1 = graph_t (tg st) @ [x, y, z];
         \<comment> \<open>Color Initialization\<close>
         isGold = (random 3 > 0.6);
         col = (if isGold then color cfg else white cfg);
         colors1 = (g_colors st)[i * 3 := Some (chan_r col), i * 3 + 1 := Some (chan_g col),
                     i * 3 + 2 := Some (chan_b col)];
         \<comment> \<open>2. Orbit (Rings)\<close>
         orbitAngle = random 4 * pi * 2;
         ring = real_of_int \<lfloor>random 5 * 3\<rfloor>;
         baseRad = 6 + ring * 5;
         ringRad = baseRad + (random 6 - 0.5) * 2;
         orbit1 = orbit (tg st) @ [cos orbitAngle * ringRad, (random 7 - 0.5) * 2, sin orbitAngle * ringRad];
         \<comment> \<open>3. Matrix (Grid)\<close>
         spacing = 3.5;
         mx = (real (i mod 15) - 7) * spacing;
         my = (real_of_int (\<lfloor>real i / 15\<rfloor> mod 15) - 7) * spacing;
         mz = (real_of_int \<lfloor>real i / 225\<rfloor> - 2) * spacing;
         matrix1 = matrix (tg st) @ [mx, my, mz];
         \<comment> \<open>4. Three Body (Clusters)\<close>
         clusterIdx = i mod 3;
         tAngle = random 8 * pi * 2;
         tRad = random 9 * 4;
         threebody1 = threebody (tg st) @
           (if clusterIdx = 0 then [-12 + cos tAngle * tRad, sin tAngle * tRad, 0]
            else if clusterIdx = 1 then [12 + cos tAngle * tRad, sin tAngle * tRad, 0]
            else [cos tAngle * (tRad + 10), 12 + sin tAngle * tRad, sin tAngle * 5]);
         \<comment> \<open>5. Neural (Layers)\<close>
         layer = i mod 5;
         layerX = (real layer - 2) * 7;
         layerY = (random 10 - 0.5) * 16;
         layerZ = (random 11 - 0.5) * 16;
         neural1 = neural (tg st) @ [layerX, layerY, layerZ];
         \<comment> \<open>6. Quant (Fan)\<close>
         quantX = (real i / pCount) * 45 - 20;
         timeRatio = (quantX + 20) / 45;
         volatility = (timeRatio powr 1.5) * 18;
         pathOffset = (random 12 - 0.5) * volatility;
         quant1 = quant (tg st) @ [quantX, pathOffset + timeRatio * 8, (random 13 - 0.5) * (volatility + 2)];
         \<comment> \<open>7. Nash (Saddle)\<close>
         saddleRange = 12;
         sx = (random 14 - 0.5) * 2 * saddleRange;
         sz = (random 15 - 0.5) * 2 * saddleRange;
         sy = (sx * sx - sz * sz) * 0.08;
         nash1 = nash (tg st) @ [sx, sy, sz];
         \<comment> \<open>8. Lorenz\<close>
         dx = sigma * (ly st - lx st) * dt;
         dy = (lx st * (rho - lz st) - ly st) * dt;
         dz = (lx st * ly st - beta * lz st) * dt;
         lx1 = lx st + dx; ly1 = ly st + dy; lz1 = lz st + dz;
         lorenz1 = lorenz (tg st) @ [lx1 * 0.8, ly1 * 0.8, (lz1 - 25) * 0.8];
         \<comment> \<open>9. Golden Ratio (Phyllotaxis)\<close>
         phi = 137.5 * (pi / 180);
         theta = real i * phi;
         radius = 0.5 * sqrt (real i);
         golden1 = golden (tg st) @ [cos theta * radius, (real i / pCount) * 10 - 5, sin theta * radius];
         \<comment> \<open>10. Topology (Klein Bottle - Figure 8 Immersion)\<close>
         u = (real i / pCount) * pi * 2;
         v = real (i mod 50) * (pi * 2 / 50);
         r = 3;
         cosU = cos u; sinU = sin u;
         cosU2 = cos (u / 2); sinU2 = sin (u / 2);
         cosV = cos v; sinV = sin v;
         sin2V = sin (2 * v);
         kx = (r + cosU2 * sinV - sinU2 * sin2V) * cosU;
         ky = (r + cosU2 * sinV - sinU2 * sin2V) * sinU;
         kz = sinU2 * sinV + cosU2 * sin2V;
         topology1 = topology_t (tg st) @ [kx * 4, ky * 4, kz * 4];
         \<comment> \<open>11. Calculus (Riemann Surface - Helicoid)\<close>
         cU = (real i / pCount) * 10 - 5;
         cV = real (i mod 50) * 0.2 * pi;
         hx = cU * cos cV;
         hy = cU * sin cV;
         hz = cV / 2 - 5;
         calculus1 = calculus (tg st) @ [hx * 2, hy * 2, hz * 2];
         \<comment> \<open>12. Series (Spherical Harmonics)\<close>
         sTheta = random 16 * pi * 2;
         sPhi = arccos (2 * random 17 - 1);
         sR = 10 + 5 * sin (6 * sTheta) * cos (5 * sPhi);
         series1 = series (tg st) @ [sR * sin sPhi * cos sTheta, sR * sin sPhi * sin sTheta, sR * cos sPhi]
     in \<lparr> g_positions = positions1, g_colors = colors1, lx = lx1, ly = ly1, lz = lz1,
          tg = \<lparr> graph_t = graph1, orbit = orbit1, matrix = matrix1, threebody = threebody1,
                 neural = neural1, quant = quant1, nash = nash1, lorenz = lorenz1,
                 golden = golden1, topology_t = topology1, calculus = calculus1,
                 series = series1 \<rparr> \<rparr>)"

text \<open>
  The state before the first pass: two zero-filled typed arrays of \<open>pCount * 3\<close> cells,
  the Lorenz point \<open>(0.1, 0, 0)\<close> and twelve empty tables.
\<close>

definition gen_init :: "config \<Rightarrow> gen" where
  "gen_init cfg = \<lparr> g_positions = replicate (particleCount cfg * 3) (Some 0),
                    g_colors = replicate (particleCount cfg * 3) (Some 0),
                    lx = 0.1, ly = 0, lz = 0, tg = empty_targets \<rparr>"

text \<open>\<open>for (let i = 0; i < pCount; i++)\<close>\<close>

definition createParticles :: "config \<Rightarrow> (nat \<Rightarrow> real) \<Rightarrow> gen" where
  "createParticles cfg rnd = fold (particle_body cfg rnd) [0..<particleCount cfg] (gen_init cfg)"

section \<open>The render loop\<close>

text \<open>
  What a frame reads and writes of the scene: the two typed arrays behind
  \<open>particles.geometry.attributes\<close>, the Euler angles \<open>(x, y, z)\<close> of the two meshes,
  the visibility and the position attribute of the line mesh, and the camera position
  (its \<open>z\<close> is never written by a frame).
\<close>

record scene =
  position_array :: "num list"
  color_array :: "num list"
  particles_rotation :: "real \<times> real \<times> real"
  lines_rotation :: "real \<times> real \<times> real"
  lines_visible :: bool
  line_positions :: "num list"
  camera_x :: real
  camera_y :: real

subsection \<open>updateLines\<close>

text \<open>The body of the inner loop, for one pair \<open>(i, j)\<close>; \<open>acc\<close> is \<open>linePositions\<close>.\<close>

definition line_pair :: "string \<Rightarrow> num list \<Rightarrow> nat \<Rightarrow> nat \<Rightarrow> num list \<Rightarrow> num list" where
  "line_pair m ps i j acc =
    (let dx = num_sub (f32_get ps (i * 3)) (f32_get ps (j * 3));
         dy = num_sub (f32_get ps (i * 3 + 1)) (f32_get ps (j * 3 + 1));
         dz = num_sub (f32_get ps (i * 3 + 2)) (f32_get ps (j * 3 + 2));
         distSq = num_add (num_add (num_mul dx dx) (num_mul dy dy)) (num_mul dz dz);
         threshold = 12;
         threshold = (if m = ''neural'' then 30 else threshold);
         threshold = (if m = ''nash'' then 8 else threshold);
         threshold = (if m = ''matrix'' then 14 else threshold)
     in if num_lt distSq (Some threshold)
        then acc @ [f32_get ps (i * 3), f32_get ps (i * 3 + 1), f32_get ps (i * 3 + 2),
                    f32_get ps (j * 3), f32_get ps (j * 3 + 1), f32_get ps (j * 3 + 2)]
        else acc)"

text \<open>\<open>for (let j = i + 1; j < Math.min(i + checkLimit, limit); j++)\<close>\<close>

definition lines_inner :: "string \<Rightarrow> num list \<Rightarrow> nat \<Rightarrow> nat \<Rightarrow> nat \<Rightarrow> num list \<Rightarrow> num list" where
  "lines_inner m ps checkLimit limit i acc =
     fold (line_pair m ps i) [i + 1..<min (i + checkLimit) limit] acc"

text \<open>\<open>for (let i = 0; i < limit; i += step)\<close>, with \<open>step = isMobile ? 3 : 2\<close>.\<close>

function lines_outer :: "bool \<Rightarrow> string \<Rightarrow> num list \<Rightarrow> nat \<Rightarrow> nat \<Rightarrow> nat \<Rightarrow> num list \<Rightarrow> num list" where
  "lines_outer isMobile m ps checkLimit limit i acc =
     (if i < limit
      then lines_outer isMobile m ps checkLimit limit (i + (if isMobile then 3 else 2))
             (lines_inner m ps checkLimit limit i acc)
      else acc)"
  by pat_completeness auto
termination
  by (relation "measure (\<lambda>(isMobile, m, ps, checkLimit, limit, i, acc). limit - i)") auto

declare lines_outer.simps [simp del]

definition updateLines :: "config \<Rightarrow> bool \<Rightarrow> scene \<Rightarrow> scene" where
  "updateLines cfg isMobile sc =
    (let m = mode cfg in
     if m = ''lorenz'' \<or> m = ''quant'' \<or> m = ''series'' \<or> m = ''topology'' \<or> m = ''calculus''
     then sc\<lparr>lines_visible := False\<rparr>
     else
       (let positions = position_array sc;
            checkLimit = (if isMobile then 15 else 40);
            limit = particleCount cfg;
            linePositions = lines_outer isMobile m positions checkLimit limit 0 []
        in sc\<lparr>lines_visible := True, line_positions := linePositions\<rparr>))"

subsection \<open>animate\<close>

text \<open>The body of the neural pulse loop, for particle \<open>i\<close>.\<close>

definition pulse_particle :: "real \<Rightarrow> num list \<Rightarrow> nat \<Rightarrow> num list \<Rightarrow> num list" where
  "pulse_particle wavePos positions i colors =
    (let i3 = i * 3;
         x = f32_get positions i3;
         dist = map_option (\<lambda>v. \<bar>v - wavePos\<bar>) x;
         glow = map_option (\<lambda>d. exp (- (d * d) / 10)) dist
     in colors[i3 := map_option (\<lambda>g. 0.83 + 0.17 * g) glow,
               i3 + 1 := map_option (\<lambda>g. 0.68 + 0.32 * g) glow,
               i3 + 2 := map_option (\<lambda>g. 0.21 + 0.79 * g) glow])"

text \<open>The chain of \<open>if\<close>/\<open>else if\<close> that picks the target \<open>(tx, ty, tz)\<close> of particle \<open>i\<close>.\<close>

definition particle_target :: "string \<Rightarrow> targets \<Rightarrow> real \<Rightarrow> nat \<Rightarrow> num \<times> num \<times> num" where
  "particle_target m tgs time i =
    (let i3 = i * 3; tx = Some 0; ty = Some 0; tz = Some 0 in
     if m = ''graph'' then
       (arr_get (graph_t tgs) i3, arr_get (graph_t tgs) (i3 + 1), arr_get (graph_t tgs) (i3 + 2))
     else if m = ''orbit'' then
       (arr_get (orbit tgs) i3,
        num_add (arr_get (orbit tgs) (i3 + 1)) (Some (sin (time * 2 + real i) * 1.5)),
        arr_get (orbit tgs) (i3 + 2))
     else if m = ''matrix'' then
       (let tx = arr_get (matrix tgs) i3 in
        (tx,
         num_add (arr_get (matrix tgs) (i3 + 1)) (map_option (\<lambda>t. sin (time + t * 0.3) * 2) tx),
         arr_get (matrix tgs) (i3 + 2)))
     else if m = ''threebody'' then
       (num_add (arr_get (threebody tgs) i3) (Some (sin (time * 2 + real i) * 2)),
        num_add (arr_get (threebody tgs) (i3 + 1)) (Some (cos (time * 1.5 + real i) * 2)),
        num_add (arr_get (threebody tgs) (i3 + 2)) (Some (sin (time + real i) * 2)))
     else if m = ''neural'' then
       (arr_get (neural tgs) i3, arr_get (neural tgs) (i3 + 1), arr_get (neural tgs) (i3 + 2))
     else if m = ''quant'' then
       (let tx = arr_get (quant tgs) i3 in
        (tx,
         num_add (arr_get (quant tgs) (i3 + 1)) (map_option (\<lambda>t. sin (time * 2 + t * 0.1) * 2) tx),
         arr_get (quant tgs) (i3 + 2)))
     else if m = ''nash'' then
       (arr_get (nash tgs) i3, arr_get (nash tgs) (i3 + 1), arr_get (nash tgs) (i3 + 2))
     else if m = ''lorenz'' then
       (arr_get (lorenz tgs) i3, arr_get (lorenz tgs) (i3 + 1), arr_get (lorenz tgs) (i3 + 2))
     else if m = ''golden'' then
       (arr_get (golden tgs) i3, arr_get (golden tgs) (i3 + 1), arr_get (golden tgs) (i3 + 2))
     else if m = ''topology'' then
       (arr_get (topology_t tgs) i3, arr_get (topology_t tgs) (i3 + 1), arr_get (topology_t tgs) (i3 + 2))
     else if m = ''calculus'' then
       (arr_get (calculus tgs) i3, arr_get (calculus tgs) (i3 + 1), arr_get (calculus tgs) (i3 + 2))
     else if m = ''series'' then
       (arr_get (series tgs) i3, arr_get (series tgs) (i3 + 1), arr_get (series tgs) (i3 + 2))
     else (tx, ty, tz))"

text \<open>\<open>p += (t - p) * 0.04\<close>\<close>

definition ease :: "num \<Rightarrow> num \<Rightarrow> num" where
  "ease p t = num_add p (num_mul (num_sub t p) (Some 0.04))"

text \<open>The body of the movement loop, for particle \<open>i\<close>.\<close>

definition move_particle :: "string \<Rightarrow> targets \<Rightarrow> real \<Rightarrow> nat \<Rightarrow> num list \<Rightarrow> num list" where
  "move_particle m tgs time i positions =
    (let i3 = i * 3;
         (tx, ty, tz) = particle_target m tgs time i;
         positions = positions[i3 := ease (f32_get positions i3) tx];
         positions = positions[i3 + 1 := ease (f32_get positions (i3 + 1)) ty];
         positions = positions[i3 + 2 := ease (f32_get positions (i3 + 2)) tz]
     in positions)"

text \<open>
  One call of \<open>animate\<close>. \<open>time\<close> is \<open>Date.now() * 0.001\<close> and \<open>mouse\<close> the last pointer
  coordinates; requesting the next frame and the draw call change nothing a frame reads.
\<close>

definition animate :: "config \<Rightarrow> targets \<Rightarrow> bool \<Rightarrow> real \<Rightarrow> real \<times> real \<Rightarrow> scene \<Rightarrow> scene" where
  "animate cfg tgs isMobile time mouse sc =
    (let m = mode cfg;
         \<comment> \<open>camera\<close>
         sc = sc\<lparr>camera_x := camera_x sc + (fst mouse * 3 - camera_x sc) * 0.05\<rparr>;
         sc = sc\<lparr>camera_y := camera_y sc + (snd mouse * 3 + 10 - camera_y sc) * 0.05\<rparr>;
         \<comment> \<open>Rotation\<close>
         sc = (if m \<in> set [''lorenz'', ''nash'', ''orbit'']
               then sc\<lparr>particles_rotation := (fst (particles_rotation sc), time * 0.1, snd (snd (particles_rotation sc))),
                       lines_rotation := (fst (lines_rotation sc), time * 0.1, snd (snd (lines_rotation sc)))\<rparr>
               else sc\<lparr>particles_rotation := (fst (particles_rotation sc), 0, snd (snd (particles_rotation sc))),
                       lines_rotation := (fst (lines_rotation sc), 0, snd (snd (lines_rotation sc)))\<rparr>);
         \<comment> \<open>Neural Pulse\<close>
         sc = (if m = ''neural''
               then (let waveSpeed = 4;
                         wavePos = js_rem (time * waveSpeed) 40 - 20
                     in sc\<lparr>color_array := fold (pulse_particle wavePos (position_array sc))
                                              [0..<particleCount cfg] (color_array sc)\<rparr>)
               else sc);
         \<comment> \<open>Universal Rotation Reset and Logic\<close>
         sc = sc\<lparr>particles_rotation := (0, 0, 0), lines_rotation := (0, 0, 0)\<rparr>;
         sc = (if m \<in> set [''lorenz'', ''nash'', ''orbit'']
               then sc\<lparr>particles_rotation := (0, time * 0.1, 0), lines_rotation := (0, time * 0.1, 0)\<rparr>
               else if m = ''topology'' then sc\<lparr>particles_rotation := (time * 0.1, time * 0.1, 0)\<rparr>
               else if m = ''calculus'' then sc\<lparr>particles_rotation := (0, 0, time * 0.1)\<rparr>
               else if m = ''series'' then sc\<lparr>particles_rotation := (0, time * 0.2, 0)\<rparr>
               else if m = ''limitless'' then sc\<lparr>particles_rotation := (time * 0.05, time * 0.05, 0)\<rparr>
               else sc);
         \<comment> \<open>Movement\<close>
         sc = sc\<lparr>position_array := fold (move_particle m tgs time) [0..<particleCount cfg]
                                       (position_array sc)\<rparr>
     in updateLines cfg isMobile sc)"

section \<open>The mode switcher\<close>

text \<open>
  The table \<open>VIZ_DESCRIPTIONS\<close> is an object literal with twelve own keys. The field
  \<open>text\<close> of an entry is called \<open>body_text\<close> here. The texts are kept in ASCII:
  letters with diacritics, Greek letters, the degree sign and the quotation marks inside
  the texts are written in Latin letters or left out.
\<close>

record description =
  title :: string
  body_text :: string

definition VIZ_DESCRIPTIONS_entries :: "(string \<times> description) list" where
  "VIZ_DESCRIPTIONS_entries =
    [(''graph'', \<lparr>title = ''Network Theory'',
        body_text = ''You are seeing an Erdos-Renyi random graph. Particles represent nodes, and lines represent edges. The gentle float simulates the dynamic nature of social or data networks.''\<rparr>),
     (''orbit'', \<lparr>title = ''Orbital Mechanics'',
        body_text = ''Particles are arranged in concentric rings using polar coordinates (r, theta). This visualizes Keplerian orbits or electron shells in physics.''\<rparr>),
     (''matrix'', \<lparr>title = ''Linear Algebra'',
        body_text = ''A structured 3D lattice representing a Vector Space. The wave motion distorts the grid, visualizing a linear transformation or vector field manipulation.''\<rparr>),
     (''threebody'', \<lparr>title = ''The Three-Body Problem'',
        body_text = ''Three distinct gravitational clusters interact chaotically. While the system appears stable, small perturbations can lead to unpredictable trajectories.''\<rparr>),
     (''lorenz'', \<lparr>title = ''The Lorenz Attractor'',
        body_text = ''A visualization of the Butterfly Effect. Points follow differential equations (dx/dt, dy/dt). They orbit two strange attractors, never repeating the same path twice.''\<rparr>),
     (''neural'', \<lparr>title = ''Multi-Layer Perceptron'',
        body_text = ''A visualization of Deep Learning. Particles form Input, Hidden, and Output layers. The passing Pulse represents the Forward Pass of data tensors through the network.''\<rparr>),
     (''quant'', \<lparr>title = ''Monte Carlo Simulation'',
        body_text = ''Geometric Brownian Motion. Each particle trace represents a possible future price path of an asset, fanning out as time (and uncertainty/volatility) increases.''\<rparr>),
     (''nash'', \<lparr>title = ''Nash Equilibrium'',
        body_text = ''A Hyperbolic Paraboloid (Saddle Point). In Game Theory, this represents the Minimax solution where one player minimizes loss while the other maximizes gain.''\<rparr>),
     (''golden'', \<lparr>title = ''The Golden Ratio'',
        body_text = ''Phyllotaxis Optimization. Nature uses the ratio phi (1.618...) to pack seeds efficiently. Each particle is placed at 137.5 degrees from the previous one.''\<rparr>),
     (''topology'', \<lparr>title = ''Topology'',
        body_text = ''The Klein Bottle. A non-orientable surface that has no distinct inside or outside. It demonstrates how space can be twisted and reconnected in higher dimensions.''\<rparr>),
     (''calculus'', \<lparr>title = ''Calculus & Motion'',
        body_text = ''Riemann Surface. A Helicoid surface representing multi-valued functions in complex analysis. It visualizes the geometry of smooth, continuous change.''\<rparr>),
     (''series'', \<lparr>title = ''Fourier Series'',
        body_text = ''Spherical Harmonics. Complex resonant states on a sphere. This shows how overlapping frequencies (Series) create intricate 3D interference patterns.''\<rparr>)]"

text \<open>
  The values that a lookup \<open>VIZ_DESCRIPTIONS[mode]\<close> can yield and that the state
  \<open>insight\<close> can hold: \<open>undefined\<close>, an entry of the table, a built-in function (by its
  name), the object \<open>Object.prototype\<close>, a fresh empty object, a string, a boolean, and
  the wrapper objects of a string and of a boolean.
\<close>

datatype js_value =
    Undefined
  | Description description
  | Function_value string
  | Prototype_object
  | Empty_object
  | String_value string
  | Boolean_value bool
  | String_object string
  | Boolean_object bool

text \<open>
  An object literal inherits from \<open>Object.prototype\<close>, and a bracket lookup that finds
  no own key goes on there. These are the properties of \<open>Object.prototype\<close> in
  ECMAScript: eleven functions, and the accessor \<open>__proto__\<close>, whose getter yields the
  prototype of the object the lookup started from, which is \<open>Object.prototype\<close> itself.
\<close>

definition object_prototype :: "(string \<times> js_value) list" where
  "object_prototype =
    [(''constructor'', Function_value ''Object''),
     (''__defineGetter__'', Function_value ''__defineGetter__''),
     (''__defineSetter__'', Function_value ''__defineSetter__''),
     (''hasOwnProperty'', Function_value ''hasOwnProperty''),
     (''__lookupGetter__'', Function_value ''__lookupGetter__''),
     (''__lookupSetter__'', Function_value ''__lookupSetter__''),
     (''isPrototypeOf'', Function_value ''isPrototypeOf''),
     (''propertyIsEnumerable'', Function_value ''propertyIsEnumerable''),
     (''toString'', Function_value ''toString''),
     (''valueOf'', Function_value ''valueOf''),
     (''__proto__'', Prototype_object),
     (''toLocaleString'', Function_value ''toLocaleString'')]"

text \<open>\<open>VIZ_DESCRIPTIONS[mode]\<close>: the own keys first, then the inherited ones.\<close>

definition VIZ_DESCRIPTIONS :: "string \<Rightarrow> js_value" where
  "VIZ_DESCRIPTIONS m =
     (case map_of VIZ_DESCRIPTIONS_entries m of
        Some e \<Rightarrow> Description e
      | None \<Rightarrow> (case map_of object_prototype m of Some v \<Rightarrow> v | None \<Rightarrow> Undefined))"

text \<open>
  The state of the component \<open>Home\<close> that the switcher touches: the three pieces of
  React state, the object behind \<open>configRef\<close>, and the host's timers. A pending timer is
  the time (in ms) at which it is due and the \<open>mode\<close> its callback has captured;
  \<open>now\<close> is the host's clock in ms.
\<close>

record page =
  vizMode :: string
  insight :: js_value
  isUpdatingInsight :: bool
  configRef :: config
  timers :: "(nat \<times> string) list"
  now :: nat

definition changeVizMode :: "string \<Rightarrow> page \<Rightarrow> page" where
  "changeVizMode m pg =
     pg\<lparr>vizMode := m,
        configRef := (configRef pg)\<lparr>mode := m\<rparr>,
        isUpdatingInsight := True,
        timers := timers pg @ [(now pg + 500, m)]\<rparr>"

text \<open>
  A state setter of \<open>useState\<close> that is handed a function does not store it: React
  calls the function with the current state, with no \<open>this\<close>, and stores what it returns;
  when the function throws, the component fails to render. \<open>call_builtin f v\<close> is the call
  of the built-in function \<open>f\<close> with \<open>this\<close> undefined and the one argument \<open>v\<close>:
  \<open>Object\<close> returns an object as it is, a fresh empty object for \<open>undefined\<close> and the
  wrapper of a primitive value; \<open>toString\<close> answers for the undefined \<open>this\<close>;
  \<open>isPrototypeOf\<close> answers \<open>false\<close> for an argument that is not an object, before it
  looks at \<open>this\<close>; every other call converts the undefined \<open>this\<close> to an object, which
  throws a \<open>TypeError\<close>.
\<close>

datatype error = TypeError

definition is_object :: "js_value \<Rightarrow> bool" where
  "is_object v = (case v of Undefined \<Rightarrow> False | String_value s \<Rightarrow> False
                   | Boolean_value b \<Rightarrow> False | _ \<Rightarrow> True)"

definition call_builtin :: "string \<Rightarrow> js_value \<Rightarrow> error + js_value" where
  "call_builtin f v =
     (if f = ''Object'' then
        (case v of Undefined \<Rightarrow> Inr Empty_object
         | String_value s \<Rightarrow> Inr (String_object s)
         | Boolean_value b \<Rightarrow> Inr (Boolean_object b)
         | _ \<Rightarrow> Inr v)
      else if f = ''toString'' then Inr (String_value ''[object Undefined]'')
      else if f = ''isPrototypeOf'' then
        (if is_object v then Inl TypeError else Inr (Boolean_value False))
      else Inl TypeError)"

text \<open>\<open>setInsight(v)\<close>\<close>

definition setInsight :: "js_value \<Rightarrow> page \<Rightarrow> error + page" where
  "setInsight v pg =
     (case v of
        Function_value f \<Rightarrow>
          (case call_builtin f (insight pg) of
             Inl e \<Rightarrow> Inl e
           | Inr v' \<Rightarrow> Inr (pg\<lparr>insight := v'\<rparr>))
      | _ \<Rightarrow> Inr (pg\<lparr>insight := v\<rparr>))"

text \<open>The callback handed to \<open>setTimeout\<close>.\<close>

definition insight_callback :: "string \<Rightarrow> page \<Rightarrow> error + page" where
  "insight_callback m pg =
     (case setInsight (VIZ_DESCRIPTIONS m) pg of
        Inl e \<Rightarrow> Inl e
      | Inr pg' \<Rightarrow> Inr (pg'\<lparr>isUpdatingInsight := False\<rparr>))"

text \<open>
  The host lets \<open>d\<close> ms pass: the clock advances and every timer that is due by then
  runs, in the order the timers were set; the others stay pending. Once a callback has
  made the component fail, nothing more happens to it.
\<close>

definition elapse :: "nat \<Rightarrow> page \<Rightarrow> error + page" where
  "elapse d pg =
    (let t = now pg + d;
         due = filter (\<lambda>(due_time, m). due_time \<le> t) (timers pg);
         rest = filter (\<lambda>(due_time, m). \<not> due_time \<le> t) (timers pg)
     in fold (\<lambda>(due_time, m) r. case r of Inl e \<Rightarrow> Inl e | Inr p \<Rightarrow> insight_callback m p)
          due (Inr (pg\<lparr>now := t, timers := rest\<rparr>)))"

text \<open>The component when it mounts: \<open>useState\<close> and \<open>useRef\<close> with their initial values.\<close>

definition initial_page :: "rgb \<Rightarrow> rgb \<Rightarrow> page" where
  "initial_page gold wh =
     \<lparr>vizMode = ''graph'', insight = VIZ_DESCRIPTIONS ''graph'', isUpdatingInsight = False,
      configRef = \<lparr>particleCount = 1200, connectionDistance = 3.5, baseSpeed = 0.002,
                   color = gold, white = wh, mode = ''graph''\<rparr>,
      timers = [], now = 0\<rparr>"

section \<open>Notions used to state the properties\<close>

text \<open>
  The definitions of this section are not translations of source functions: they name
  what the properties below talk about.
\<close>

text \<open>The keys of \<open>targets\<close>: the twelve modes the movement step knows.\<close>

definition known_modes :: "string list" where
  "known_modes = [''graph'', ''orbit'', ''matrix'', ''threebody'', ''neural'', ''quant'', ''nash'',
                  ''lorenz'', ''golden'', ''topology'', ''calculus'', ''series'']"

text \<open>The keys of the description table.\<close>

definition description_keys :: "string list" where
  "description_keys = map fst VIZ_DESCRIPTIONS_entries"

text \<open>The loop of \<open>createParticles\<close> after its first \<open>n\<close> passes.\<close>

definition run :: "config \<Rightarrow> (nat \<Rightarrow> real) \<Rightarrow> nat \<Rightarrow> gen" where
  "run cfg rnd n = fold (particle_body cfg rnd) [0..<n] (gen_init cfg)"

text \<open>
  One explicit Euler step of the Lorenz system with \<open>\<sigma> = 10\<close>, \<open>\<rho> = 28\<close>,
  \<open>\<beta> = 8/3\<close> and step \<open>0.01\<close>, the point after \<open>n\<close> steps from \<open>(0.1, 0, 0)\<close>, and
  the triple stored for particle \<open>i\<close>.
\<close>

definition lorenz_next :: "real \<times> real \<times> real \<Rightarrow> real \<times> real \<times> real" where
  "lorenz_next p = (case p of (x, y, z) \<Rightarrow>
     (x + 10 * (y - x) * 0.01, y + (x * (28 - z) - y) * 0.01, z + (x * y - 8 / 3 * z) * 0.01))"

definition lorenz_state :: "nat \<Rightarrow> real \<times> real \<times> real" where
  "lorenz_state n = (lorenz_next ^^ n) (0.1, 0, 0)"

definition lorenz_point :: "nat \<Rightarrow> real list" where
  "lorenz_point i = (case lorenz_state (Suc i) of (x, y, z) \<Rightarrow> [x * 0.8, y * 0.8, (z - 25) * 0.8])"

text \<open>
  The index pairs of the line rebuild, in the words of the specification: \<open>i\<close> runs
  over the multiples of the stride (2 on a desktop, 3 on a mobile viewport) below the
  particle count, \<open>j\<close> over the indices after \<open>i\<close> that are below \<open>i + 40\<close> (desktop)
  or \<open>i + 15\<close> (mobile) and below the particle count.
\<close>

definition scan_pairs :: "bool \<Rightarrow> nat \<Rightarrow> (nat \<times> nat) list" where
  "scan_pairs isMobile limit =
     concat (map (\<lambda>i. map (\<lambda>j. (i, j)) [i + 1..<min (i + (if isMobile then 15 else 40)) limit])
                 (filter (\<lambda>i. (if isMobile then 3 else 2) dvd i) [0..<limit]))"

text \<open>The threshold of a mode, in the words of the specification.\<close>

definition mode_threshold :: "string \<Rightarrow> real" where
  "mode_threshold m = (if m = ''neural'' then 30 else if m = ''nash'' then 8
                       else if m = ''matrix'' then 14 else 12)"

text \<open>
  The squared Euclidean distance of particles \<open>i\<close> and \<open>j\<close>; \<open>NaN\<close> when one of the six
  coordinates is missing or \<open>NaN\<close>.
\<close>

definition pair_distSq :: "num list \<Rightarrow> nat \<Rightarrow> nat \<Rightarrow> num" where
  "pair_distSq ps i j =
     (case (f32_get ps (i * 3), f32_get ps (i * 3 + 1), f32_get ps (i * 3 + 2),
            f32_get ps (j * 3), f32_get ps (j * 3 + 1), f32_get ps (j * 3 + 2)) of
        (Some xi, Some yi, Some zi, Some xj, Some yj, Some zj) \<Rightarrow>
           Some ((xi - xj) * (xi - xj) + (yi - yj) * (yi - yj) + (zi - zj) * (zi - zj))
      | _ \<Rightarrow> None)"

text \<open>The six numbers of the line segment from particle \<open>i\<close> to particle \<open>j\<close>.\<close>

definition segment :: "num list \<Rightarrow> nat \<Rightarrow> nat \<Rightarrow> num list" where
  "segment ps i j = [f32_get ps (i * 3), f32_get ps (i * 3 + 1), f32_get ps (i * 3 + 2),
                     f32_get ps (j * 3), f32_get ps (j * 3 + 1), f32_get ps (j * 3 + 2)]"

text \<open>The segments that start at particle \<open>i\<close>.\<close>

definition row :: "string \<Rightarrow> num list \<Rightarrow> nat \<Rightarrow> nat \<Rightarrow> nat \<Rightarrow> num list" where
  "row m ps checkLimit limit i =
     concat (map (segment ps i)
       (filter (\<lambda>j. num_lt (pair_distSq ps i j) (Some (mode_threshold m)))
          [i + 1..<min (i + checkLimit) limit]))"

text \<open>
  A page is settled when no description swap is pending and the description on display
  is the one of the active mode.
\<close>

definition settled :: "page \<Rightarrow> bool" where
  "settled pg = (timers pg = [] \<and> insight pg = VIZ_DESCRIPTIONS (mode (configRef pg)))"

text \<open>
  What is on display and which mode is active after some events, when the component has
  not failed.
\<close>

definition displayed :: "error + page \<Rightarrow> error + js_value" where
  "displayed r = (case r of Inl e \<Rightarrow> Inl e | Inr pg \<Rightarrow> Inr (insight pg))"

definition active_mode :: "error + page \<Rightarrow> error + string" where
  "active_mode r = (case r of Inl e \<Rightarrow> Inl e | Inr pg \<Rightarrow> Inr (mode (configRef pg)))"

text \<open>The names an object literal inherits.\<close>

definition inherited_names :: "string list" where
  "inherited_names = map fst object_prototype"

text \<open>
  Concrete inputs for the examples: the two palette colours by the channels of their hex
  literals \<open>0xD4AF37\<close> and \<open>0xFFFFFF\<close> (no property depends on the values), a
  configuration with a given particle count and mode, a random source that always
  returns one half, and a scene of given positions.
\<close>

definition gold_rgb :: rgb where
  "gold_rgb = \<lparr>chan_r = 212 / 255, chan_g = 175 / 255, chan_b = 55 / 255\<rparr>"

definition white_rgb :: rgb where
  "white_rgb = \<lparr>chan_r = 1, chan_g = 1, chan_b = 1\<rparr>"

definition config_with :: "nat \<Rightarrow> string \<Rightarrow> config" where
  "config_with n m = \<lparr>particleCount = n, connectionDistance = 3.5, baseSpeed = 0.002,
                       color = gold_rgb, white = white_rgb, mode = m\<rparr>"

definition half :: "nat \<Rightarrow> real" where
  "half n = 1 / 2"

text \<open>The page 100 ms after a switch from graph to orbit.\<close>

definition orbit_page_at_100 :: page where
  "orbit_page_at_100 = (changeVizMode ''orbit'' (initial_page gold_rgb white_rgb))\<lparr>now := 100\<rparr>"

definition scene_at :: "num list \<Rightarrow> scene" where
  "scene_at ps = \<lparr>position_array = ps, color_array = replicate (length ps) (Some 1),
                   particles_rotation = (0, 0, 0), lines_rotation = (0, 0, 0),
                   lines_visible = True, line_positions = [], camera_x = 0, camera_y = 8\<rparr>"

section \<open>The target tables\<close>

lemma run_0: "run cfg rnd 0 = gen_init cfg"
  by (simp add: run_def)

lemma run_Suc: "run cfg rnd (Suc n) = particle_body cfg rnd n (run cfg rnd n)"
  by (simp add: run_def)

lemma createParticles_run: "createParticles cfg rnd = run cfg rnd (particleCount cfg)"
  by (simp add: createParticles_def run_def)

subsection \<open>Tables built from one triple per particle\<close>

lemma concat_triples_length:
  "(\<And>i. length (f i) = 3) \<Longrightarrow> length (concat (map f [0..<n])) = 3 * n"
  by (induction n) simp_all

lemma concat_triples_nth:
  assumes len: "\<And>i. length (f i) = 3" and "i < n" and "k < 3"
  shows "concat (map f [0..<n]) ! (3 * i + k) = f i ! k"
  using assms(2)
proof (induction n)
  case 0
  then show ?case by simp
next
  case (Suc n)
  have L: "length (concat (map f [0..<n])) = 3 * n"
    using len by (rule concat_triples_length)
  show ?case
  proof (cases "i < n")
    case True
    then have "3 * i + k < 3 * n" using assms(3) by arith
    then show ?thesis using Suc.IH[OF True] L by (simp add: nth_append)
  next
    case False
    with Suc.prems have "i = n" by arith
    then show ?thesis using L by (simp add: nth_append)
  qed
qed

lemma upt_split: "a \<le> b \<Longrightarrow> b \<le> c \<Longrightarrow> [a..<c] = [a..<b] @ [b..<c]"
  using upt_add_eq_append[of a b "c - b"] by simp

lemma concat_triples_take:
  assumes len: "\<And>i. length (f i) = 3" and "k \<le> n"
  shows "take (3 * k) (concat (map f [0..<n])) = concat (map f [0..<k])"
proof -
  have "[0..<n] = [0..<k] @ [k..<n]" using assms(2) by (intro upt_split) simp_all
  then have "concat (map f [0..<n]) = concat (map f [0..<k]) @ concat (map f [k..<n])" by simp
  moreover have "length (concat (map f [0..<k])) = 3 * k" using len by (rule concat_triples_length)
  ultimately show ?thesis by simp
qed

subsection \<open>Sizes\<close>

lemma body_lengths:
  "length (g_positions (particle_body cfg rnd i st)) = length (g_positions st)"
  "length (g_colors (particle_body cfg rnd i st)) = length (g_colors st)"
  "length (graph_t (tg (particle_body cfg rnd i st))) = length (graph_t (tg st)) + 3"
  "length (orbit (tg (particle_body cfg rnd i st))) = length (orbit (tg st)) + 3"
  "length (matrix (tg (particle_body cfg rnd i st))) = length (matrix (tg st)) + 3"
  "length (threebody (tg (particle_body cfg rnd i st))) = length (threebody (tg st)) + 3"
  "length (neural (tg (particle_body cfg rnd i st))) = length (neural (tg st)) + 3"
  "length (quant (tg (particle_body cfg rnd i st))) = length (quant (tg st)) + 3"
  "length (nash (tg (particle_body cfg rnd i st))) = length (nash (tg st)) + 3"
  "length (lorenz (tg (particle_body cfg rnd i st))) = length (lorenz (tg st)) + 3"
  "length (golden (tg (particle_body cfg rnd i st))) = length (golden (tg st)) + 3"
  "length (topology_t (tg (particle_body cfg rnd i st))) = length (topology_t (tg st)) + 3"
  "length (calculus (tg (particle_body cfg rnd i st))) = length (calculus (tg st)) + 3"
  "length (series (tg (particle_body cfg rnd i st))) = length (series (tg st)) + 3"
  by (simp_all add: particle_body_def Let_def)

lemma run_lengths:
  "length (g_positions (run cfg rnd n)) = 3 * particleCount cfg"
  "length (g_colors (run cfg rnd n)) = 3 * particleCount cfg"
  "length (graph_t (tg (run cfg rnd n))) = 3 * n"
  "length (orbit (tg (run cfg rnd n))) = 3 * n"
  "length (matrix (tg (run cfg rnd n))) = 3 * n"
  "length (threebody (tg (run cfg rnd n))) = 3 * n"
  "length (neural (tg (run cfg rnd n))) = 3 * n"
  "length (quant (tg (run cfg rnd n))) = 3 * n"
  "length (nash (tg (run cfg rnd n))) = 3 * n"
  "length (lorenz (tg (run cfg rnd n))) = 3 * n"
  "length (golden (tg (run cfg rnd n))) = 3 * n"
  "length (topology_t (tg (run cfg rnd n))) = 3 * n"
  "length (calculus (tg (run cfg rnd n))) = 3 * n"
  "length (series (tg (run cfg rnd n))) = 3 * n"
  by (induction n) (simp_all add: run_0 run_Suc body_lengths gen_init_def empty_targets_def)

text \<open>
  Every buffer that \<open>createParticles\<close> fills has three cells per particle: the two typed
  arrays and each of the twelve target tables.
\<close>

lemma createParticles_lengths:
  "length (g_positions (createParticles cfg rnd)) = 3 * particleCount cfg"
  "length (g_colors (createParticles cfg rnd)) = 3 * particleCount cfg"
  "length (graph_t (tg (createParticles cfg rnd))) = 3 * particleCount cfg"
  "length (orbit (tg (createParticles cfg rnd))) = 3 * particleCount cfg"
  "length (matrix (tg (createParticles cfg rnd))) = 3 * particleCount cfg"
  "length (threebody (tg (createParticles cfg rnd))) = 3 * particleCount cfg"
  "length (neural (tg (createParticles cfg rnd))) = 3 * particleCount cfg"
  "length (quant (tg (createParticles cfg rnd))) = 3 * particleCount cfg"
  "length (nash (tg (createParticles cfg rnd))) = 3 * particleCount cfg"
  "length (lorenz (tg (createParticles cfg rnd))) = 3 * particleCount cfg"
  "length (golden (tg (createParticles cfg rnd))) = 3 * particleCount cfg"
  "length (topology_t (tg (createParticles cfg rnd))) = 3 * particleCount cfg"
  "length (calculus (tg (createParticles cfg rnd))) = 3 * particleCount cfg"
  "length (series (tg (createParticles cfg rnd))) = 3 * particleCount cfg"
  by (simp_all add: createParticles_run run_lengths)

subsection \<open>The lorenz table\<close>

lemma body_lorenz_state:
  "(lx (particle_body cfg rnd i st), ly (particle_body cfg rnd i st), lz (particle_body cfg rnd i st))
     = lorenz_next (lx st, ly st, lz st)"
  by (simp add: particle_body_def Let_def lorenz_next_def)

lemma run_lorenz_state:
  "(lx (run cfg rnd n), ly (run cfg rnd n), lz (run cfg rnd n)) = lorenz_state n"
proof (induction n)
  case 0
  show ?case by (simp add: run_0 gen_init_def lorenz_state_def)
next
  case (Suc n)
  show ?case unfolding run_Suc body_lorenz_state Suc.IH by (simp add: lorenz_state_def)
qed

lemma body_lorenz:
  "lorenz (tg (particle_body cfg rnd i st)) = lorenz (tg st) @
     (case lorenz_next (lx st, ly st, lz st) of (x, y, z) \<Rightarrow> [x * 0.8, y * 0.8, (z - 25) * 0.8])"
  by (simp add: particle_body_def Let_def lorenz_next_def)

lemma run_lorenz: "lorenz (tg (run cfg rnd n)) = concat (map lorenz_point [0..<n])"
proof (induction n)
  case 0
  show ?case by (simp add: run_0 gen_init_def empty_targets_def)
next
  case (Suc n)
  have "lorenz (tg (run cfg rnd (Suc n))) = lorenz (tg (run cfg rnd n)) @ lorenz_point n"
    unfolding run_Suc body_lorenz run_lorenz_state
    by (simp add: lorenz_point_def lorenz_state_def)
  then show ?case using Suc.IH by simp
qed

lemma length_lorenz_point: "length (lorenz_point i) = 3"
  by (simp add: lorenz_point_def split: prod.splits)

lemma lorenz_point_0: "lorenz_point 0 = [9 / 125, 14 / 625, - 20]"
  by (simp add: lorenz_point_def lorenz_state_def lorenz_next_def)

text \<open>
  Claim C2. The lorenz table is built by one running integration, so the table of a
  smaller particle count is a prefix of the table of a larger one: for \<open>k < N\<close>, the first
  \<open>3 * k\<close> entries of the table generated for \<open>N\<close> particles are the table generated for
  \<open>k\<close> particles, whatever the two random sources and the other settings are.
\<close>

theorem lorenz_prefix:
  assumes "particleCount cfg' < particleCount cfg"
  shows "take (3 * particleCount cfg') (lorenz (tg (createParticles cfg rnd)))
           = lorenz (tg (createParticles cfg' rnd'))"
  using assms
  by (simp add: createParticles_run run_lorenz concat_triples_take length_lorenz_point)

theorem lorenz_prefix_witness:
  "particleCount (config_with 1 ''graph'') < particleCount (config_with 2 ''lorenz'')
   \<and> take (3 * particleCount (config_with 1 ''graph''))
        (lorenz (tg (createParticles (config_with 2 ''lorenz'') half)))
       = lorenz (tg (createParticles (config_with 1 ''graph'') (\<lambda>n. 0)))
   \<and> lorenz (tg (createParticles (config_with 1 ''graph'') (\<lambda>n. 0))) = [9 / 125, 14 / 625, - 20]"
proof -
  have lt: "particleCount (config_with 1 ''graph'') < particleCount (config_with 2 ''lorenz'')"
    by (simp add: config_with_def)
  have one: "particleCount (config_with 1 ''graph'') = 1"
    by (simp add: config_with_def)
  have v: "lorenz (tg (createParticles (config_with 1 ''graph'') (\<lambda>n. 0))) = [9 / 125, 14 / 625, - 20]"
    unfolding createParticles_run one run_lorenz by (simp add: lorenz_point_0)
  show ?thesis using lt lorenz_prefix[OF lt, of half "\<lambda>n. 0"] v by simp
qed

subsection \<open>The nash table\<close>

lemma body_nash:
  "nash (tg (particle_body cfg rnd i st)) = nash (tg st) @
     [(rnd (18 * i + 14) - 0.5) * 2 * 12,
      (((rnd (18 * i + 14) - 0.5) * 2 * 12) * ((rnd (18 * i + 14) - 0.5) * 2 * 12)
        - ((rnd (18 * i + 15) - 0.5) * 2 * 12) * ((rnd (18 * i + 15) - 0.5) * 2 * 12)) * 0.08,
      (rnd (18 * i + 15) - 0.5) * 2 * 12]"
  by (simp add: particle_body_def Let_def)

lemma run_nash:
  "nash (tg (run cfg rnd n)) = concat (map (\<lambda>i.
     [(rnd (18 * i + 14) - 0.5) * 2 * 12,
      (((rnd (18 * i + 14) - 0.5) * 2 * 12) * ((rnd (18 * i + 14) - 0.5) * 2 * 12)
        - ((rnd (18 * i + 15) - 0.5) * 2 * 12) * ((rnd (18 * i + 15) - 0.5) * 2 * 12)) * 0.08,
      (rnd (18 * i + 15) - 0.5) * 2 * 12]) [0..<n])"
  by (induction n) (simp_all add: run_0 run_Suc body_nash gen_init_def empty_targets_def)

text \<open>
  Claim C5. In the nash table, the triple of every particle \<open>i\<close> lies on the saddle: its
  second entry is \<open>(x * x - z * z) * 0.08\<close> for the first entry \<open>x\<close> and the third entry
  \<open>z\<close> of the same triple. The table holds one triple per particle.
\<close>

theorem nash_saddle:
  assumes "i < particleCount cfg"
  shows "length (nash (tg (createParticles cfg rnd))) = 3 * particleCount cfg \<and>
         nash (tg (createParticles cfg rnd)) ! (3 * i + 1) =
           (nash (tg (createParticles cfg rnd)) ! (3 * i) * nash (tg (createParticles cfg rnd)) ! (3 * i)
            - nash (tg (createParticles cfg rnd)) ! (3 * i + 2) * nash (tg (createParticles cfg rnd)) ! (3 * i + 2))
           * 0.08"
proof -
  let ?f = "\<lambda>i. [(rnd (18 * i + 14) - 0.5) * 2 * 12,
      (((rnd (18 * i + 14) - 0.5) * 2 * 12) * ((rnd (18 * i + 14) - 0.5) * 2 * 12)
        - ((rnd (18 * i + 15) - 0.5) * 2 * 12) * ((rnd (18 * i + 15) - 0.5) * 2 * 12)) * 0.08,
      (rnd (18 * i + 15) - 0.5) * 2 * 12]"
  have len: "\<And>i. length (?f i) = 3" by simp
  have eq: "nash (tg (createParticles cfg rnd)) = concat (map ?f [0..<particleCount cfg])"
    by (simp only: createParticles_run run_nash)
  have n0: "concat (map ?f [0..<particleCount cfg]) ! (3 * i + 0) = ?f i ! 0"
    by (rule concat_triples_nth[OF len assms]) simp
  have n1: "concat (map ?f [0..<particleCount cfg]) ! (3 * i + 1) = ?f i ! 1"
    by (rule concat_triples_nth[OF len assms]) simp
  have n2: "concat (map ?f [0..<particleCount cfg]) ! (3 * i + 2) = ?f i ! 2"
    by (rule concat_triples_nth[OF len assms]) simp
  have L: "length (concat (map ?f [0..<particleCount cfg])) = 3 * particleCount cfg"
    by (rule concat_triples_length[OF len])
  show ?thesis unfolding eq using n0 n1 n2 L by simp
qed

theorem nash_saddle_witness:
  "0 < particleCount (config_with 1 ''nash'')
   \<and> nash (tg (createParticles (config_with 1 ''nash'') (\<lambda>n. if n = 14 then 3 / 4 else 1 / 2)))
       = [6, 72 / 25, 0]
   \<and> nash (tg (createParticles (config_with 1 ''nash'') (\<lambda>n. if n = 14 then 3 / 4 else 1 / 2))) ! (3 * 0 + 1)
       = (nash (tg (createParticles (config_with 1 ''nash'') (\<lambda>n. if n = 14 then 3 / 4 else 1 / 2))) ! (3 * 0)
            * nash (tg (createParticles (config_with 1 ''nash'') (\<lambda>n. if n = 14 then 3 / 4 else 1 / 2))) ! (3 * 0)
          - nash (tg (createParticles (config_with 1 ''nash'') (\<lambda>n. if n = 14 then 3 / 4 else 1 / 2))) ! (3 * 0 + 2)
            * nash (tg (createParticles (config_with 1 ''nash'') (\<lambda>n. if n = 14 then 3 / 4 else 1 / 2))) ! (3 * 0 + 2))
         * 0.08"
proof -
  have pos: "0 < particleCount (config_with 1 ''nash'')"
    by (simp add: config_with_def)
  have one: "particleCount (config_with 1 ''nash'') = 1"
    by (simp add: config_with_def)
  have v: "nash (tg (createParticles (config_with 1 ''nash'') (\<lambda>n. if n = 14 then 3 / 4 else 1 / 2)))
             = [6, 72 / 25, 0]"
    unfolding createParticles_run one run_nash by simp
  show ?thesis
    using pos v nash_saddle[OF pos, of "\<lambda>n. if n = 14 then 3 / 4 else 1 / 2"] by blast
qed

subsection \<open>The golden table\<close>

lemma body_golden:
  "golden (tg (particle_body cfg rnd i st)) = golden (tg st) @
     [cos (real i * (137.5 * (pi / 180))) * (0.5 * sqrt (real i)),
      (real i / real (particleCount cfg)) * 10 - 5,
      sin (real i * (137.5 * (pi / 180))) * (0.5 * sqrt (real i))]"
  by (simp add: particle_body_def Let_def)

lemma run_golden:
  "golden (tg (run cfg rnd n)) = concat (map (\<lambda>i.
     [cos (real i * (137.5 * (pi / 180))) * (0.5 * sqrt (real i)),
      (real i / real (particleCount cfg)) * 10 - 5,
      sin (real i * (137.5 * (pi / 180))) * (0.5 * sqrt (real i))]) [0..<n])"
  by (induction n) (simp_all add: run_0 run_Suc body_golden gen_init_def empty_targets_def)

lemma golden_entries:
  assumes "i < particleCount cfg"
  shows "golden (tg (createParticles cfg rnd)) ! (3 * i)
           = cos (real i * (137.5 * (pi / 180))) * (0.5 * sqrt (real i))"
    and "golden (tg (createParticles cfg rnd)) ! (3 * i + 2)
           = sin (real i * (137.5 * (pi / 180))) * (0.5 * sqrt (real i))"
proof -
  let ?f = "\<lambda>i. [cos (real i * (137.5 * (pi / 180))) * (0.5 * sqrt (real i)),
      (real i / real (particleCount cfg)) * 10 - 5,
      sin (real i * (137.5 * (pi / 180))) * (0.5 * sqrt (real i))]"
  have len: "\<And>i. length (?f i) = 3" by simp
  have eq: "golden (tg (createParticles cfg rnd)) = concat (map ?f [0..<particleCount cfg])"
    by (simp only: createParticles_run run_golden)
  have n0: "concat (map ?f [0..<particleCount cfg]) ! (3 * i + 0) = ?f i ! 0"
    by (rule concat_triples_nth[OF len assms]) simp
  have n2: "concat (map ?f [0..<particleCount cfg]) ! (3 * i + 2) = ?f i ! 2"
    by (rule concat_triples_nth[OF len assms]) simp
  show "golden (tg (createParticles cfg rnd)) ! (3 * i)
          = cos (real i * (137.5 * (pi / 180))) * (0.5 * sqrt (real i))"
    unfolding eq using n0 by simp
  show "golden (tg (createParticles cfg rnd)) ! (3 * i + 2)
          = sin (real i * (137.5 * (pi / 180))) * (0.5 * sqrt (real i))"
    unfolding eq using n2 by simp
qed

lemma planar_radius: "0 \<le> r \<Longrightarrow> sqrt ((cos a * r)\<^sup>2 + (sin a * r)\<^sup>2) = (r::real)"
proof -
  assume r: "0 \<le> r"
  have "(cos a * r)\<^sup>2 + (sin a * r)\<^sup>2 = ((cos a)\<^sup>2 + (sin a)\<^sup>2) * r\<^sup>2"
    by (simp only: power_mult_distrib distrib_right)
  also have "\<dots> = r\<^sup>2" by simp
  finally show ?thesis using r by simp
qed

text \<open>
  Claim C6. In the golden table, the point of every particle \<open>i\<close> has planar radius
  \<open>sqrt (x\<^sup>2 + z\<^sup>2) = 0.5 * sqrt i\<close> and sits at the planar angle \<open>i * \<phi>\<close>, where \<open>\<phi>\<close> is
  137.5 degrees in radians, \<open>137.5 * (pi / 180)\<close>: its planar coordinates are
  \<open>(cos (i * \<phi>) * 0.5 * sqrt i, sin (i * \<phi>) * 0.5 * sqrt i)\<close>. The angles of consecutive
  particles differ by exactly \<open>\<phi>\<close>; on the stored points, the direction of particle
  \<open>i + 1\<close> is the direction of particle \<open>i\<close> turned by \<open>\<phi>\<close> (stated with the radii
  multiplied out, so that it also covers particle 0, which sits on the axis).
\<close>

theorem golden_spiral:
  assumes "i < particleCount cfg"
  shows "sqrt ((golden (tg (createParticles cfg rnd)) ! (3 * i))\<^sup>2
              + (golden (tg (createParticles cfg rnd)) ! (3 * i + 2))\<^sup>2) = 0.5 * sqrt (real i)
       \<and> golden (tg (createParticles cfg rnd)) ! (3 * i)
           = cos (real i * (137.5 * (pi / 180))) * (0.5 * sqrt (real i))
       \<and> golden (tg (createParticles cfg rnd)) ! (3 * i + 2)
           = sin (real i * (137.5 * (pi / 180))) * (0.5 * sqrt (real i))
       \<and> real (Suc i) * (137.5 * (pi / 180)) - real i * (137.5 * (pi / 180)) = 137.5 * (pi / 180)
       \<and> (Suc i < particleCount cfg \<longrightarrow>
            golden (tg (createParticles cfg rnd)) ! (3 * Suc i) * (0.5 * sqrt (real i))
              = 0.5 * sqrt (real (Suc i)) *
                  (cos (137.5 * (pi / 180)) * golden (tg (createParticles cfg rnd)) ! (3 * i)
                   - sin (137.5 * (pi / 180)) * golden (tg (createParticles cfg rnd)) ! (3 * i + 2))
          \<and> golden (tg (createParticles cfg rnd)) ! (3 * Suc i + 2) * (0.5 * sqrt (real i))
              = 0.5 * sqrt (real (Suc i)) *
                  (sin (137.5 * (pi / 180)) * golden (tg (createParticles cfg rnd)) ! (3 * i)
                   + cos (137.5 * (pi / 180)) * golden (tg (createParticles cfg rnd)) ! (3 * i + 2)))"
proof -
  let ?p = "137.5 * (pi / 180) :: real"
  note e = golden_entries[OF assms, of rnd]
  have rad: "sqrt ((golden (tg (createParticles cfg rnd)) ! (3 * i))\<^sup>2
              + (golden (tg (createParticles cfg rnd)) ! (3 * i + 2))\<^sup>2) = 0.5 * sqrt (real i)"
    unfolding e by (rule planar_radius) simp
  have step: "real (Suc i) * ?p - real i * ?p = ?p" by (simp add: algebra_simps)
  have rot: "golden (tg (createParticles cfg rnd)) ! (3 * Suc i) * (0.5 * sqrt (real i))
              = 0.5 * sqrt (real (Suc i)) *
                  (cos ?p * golden (tg (createParticles cfg rnd)) ! (3 * i)
                   - sin ?p * golden (tg (createParticles cfg rnd)) ! (3 * i + 2))
          \<and> golden (tg (createParticles cfg rnd)) ! (3 * Suc i + 2) * (0.5 * sqrt (real i))
              = 0.5 * sqrt (real (Suc i)) *
                  (sin ?p * golden (tg (createParticles cfg rnd)) ! (3 * i)
                   + cos ?p * golden (tg (createParticles cfg rnd)) ! (3 * i + 2))"
    if s: "Suc i < particleCount cfg"
  proof -
    note e' = golden_entries[OF s, of rnd]
    have a: "real (Suc i) * ?p = real i * ?p + ?p" by (simp add: algebra_simps)
    show ?thesis unfolding e e' a cos_add sin_add by (simp add: algebra_simps)
  qed
  show ?thesis using rad e step rot by blast
qed

theorem golden_spiral_witness:
  "1 < particleCount (config_with 3 ''golden'') \<and> Suc 1 < particleCount (config_with 3 ''golden'')
   \<and> sqrt ((golden (tg (createParticles (config_with 3 ''golden'') half)) ! (3 * 1))\<^sup>2
           + (golden (tg (createParticles (config_with 3 ''golden'') half)) ! (3 * 1 + 2))\<^sup>2) = 0.5
   \<and> golden (tg (createParticles (config_with 3 ''golden'') half)) ! (3 * 1)
       = cos (137.5 * (pi / 180)) * 0.5
   \<and> golden (tg (createParticles (config_with 3 ''golden'') half)) ! (3 * Suc 1) * 0.5
       = 0.5 * sqrt 2 *
           (cos (137.5 * (pi / 180)) * golden (tg (createParticles (config_with 3 ''golden'') half)) ! (3 * 1)
            - sin (137.5 * (pi / 180)) * golden (tg (createParticles (config_with 3 ''golden'') half)) ! (3 * 1 + 2))"
proof -
  have a: "1 < particleCount (config_with 3 ''golden'')"
    and b: "Suc 1 < particleCount (config_with 3 ''golden'')"
    by (simp_all add: config_with_def)
  show ?thesis using a b golden_spiral[OF a, of half] by simp
qed

section \<open>The line rebuild\<close>

lemma line_pair_eq:
  "line_pair m ps i j acc =
     acc @ (if num_lt (pair_distSq ps i j) (Some (mode_threshold m)) then segment ps i j else [])"
proof -
  have d: "num_add (num_add (num_mul (num_sub (f32_get ps (i * 3)) (f32_get ps (j * 3)))
                                     (num_sub (f32_get ps (i * 3)) (f32_get ps (j * 3))))
                            (num_mul (num_sub (f32_get ps (i * 3 + 1)) (f32_get ps (j * 3 + 1)))
                                     (num_sub (f32_get ps (i * 3 + 1)) (f32_get ps (j * 3 + 1)))))
                   (num_mul (num_sub (f32_get ps (i * 3 + 2)) (f32_get ps (j * 3 + 2)))
                            (num_sub (f32_get ps (i * 3 + 2)) (f32_get ps (j * 3 + 2))))
           = pair_distSq ps i j"
    by (simp add: pair_distSq_def num_add_def num_sub_def num_mul_def split: option.splits)
  show ?thesis
    unfolding line_pair_def Let_def d
    by (simp add: segment_def mode_threshold_def)
qed

lemma fold_line_pair:
  "fold (line_pair m ps i) js acc =
     acc @ concat (map (segment ps i)
                     (filter (\<lambda>j. num_lt (pair_distSq ps i j) (Some (mode_threshold m))) js))"
  by (induction js arbitrary: acc) (simp_all add: line_pair_eq)

lemma lines_inner_eq: "lines_inner m ps checkLimit limit i acc = acc @ row m ps checkLimit limit i"
  by (simp add: lines_inner_def fold_line_pair row_def)

subsection \<open>The stride of the outer loop\<close>

lemma stride_gap:
  assumes "0 < (step::nat)"
  shows "filter (\<lambda>k. step dvd (k - i)) [Suc i..<min (i + step) limit] = []"
proof -
  have "\<not> step dvd (k - i)" if "k \<in> set [Suc i..<min (i + step) limit]" for k
  proof
    assume d: "step dvd (k - i)"
    from that have "0 < k - i" and lt: "k - i < step" by auto
    with d have "step \<le> k - i" using dvd_imp_le by blast
    with lt show False by simp
  qed
  then show ?thesis unfolding filter_empty_conv by blast
qed

lemma stride_shift:
  assumes "i + step \<le> limit"
  shows "filter (\<lambda>k. step dvd (k - i)) [i + step..<limit]
           = filter (\<lambda>k. step dvd (k - (i + step))) [i + step..<(limit::nat)]"
proof (rule filter_cong[OF refl])
  fix k assume "k \<in> set [i + step..<limit]"
  then have "k - i = (k - (i + step)) + step" by auto
  then show "step dvd (k - i) \<longleftrightarrow> step dvd (k - (i + step))" by simp
qed

lemma stride_unfold:
  assumes "0 < step" and "i < limit"
  shows "filter (\<lambda>k. step dvd (k - i)) [i..<limit]
           = i # filter (\<lambda>k. step dvd (k - (i + step))) [i + step..<limit]"
proof -
  have a: "[i..<limit] = i # [Suc i..<limit]" using assms(2) by (rule upt_conv_Cons)
  have b: "[Suc i..<limit] = [Suc i..<min (i + step) limit] @ [min (i + step) limit..<limit]"
    using assms by (intro upt_split) auto
  have c: "filter (\<lambda>k. step dvd (k - i)) [min (i + step) limit..<limit]
             = filter (\<lambda>k. step dvd (k - (i + step))) [i + step..<limit]"
  proof (cases "i + step \<le> limit")
    case True
    then have "min (i + step) limit = i + step" by simp
    then show ?thesis using stride_shift[OF True] by simp
  next
    case False
    then show ?thesis by simp
  qed
  have "filter (\<lambda>k. step dvd (k - i)) [i..<limit]
          = i # (filter (\<lambda>k. step dvd (k - i)) [Suc i..<min (i + step) limit]
                 @ filter (\<lambda>k. step dvd (k - i)) [min (i + step) limit..<limit])"
    by (subst a, subst b) simp
  then show ?thesis unfolding stride_gap[OF assms(1)] c by simp
qed

lemma lines_outer_eq:
  "lines_outer isMobile m ps checkLimit limit i acc =
     acc @ concat (map (row m ps checkLimit limit)
                     (filter (\<lambda>k. (if isMobile then 3 else 2) dvd (k - i)) [i..<limit]))"
proof (induction isMobile m ps checkLimit limit i acc rule: lines_outer.induct)
  case (1 isMobile m ps checkLimit limit i acc)
  let ?step = "if isMobile then 3 else 2 :: nat"
  show ?case
  proof (cases "i < limit")
    case True
    have pos: "0 < ?step" by simp
    have "lines_outer isMobile m ps checkLimit limit i acc
            = lines_outer isMobile m ps checkLimit limit (i + ?step)
                (lines_inner m ps checkLimit limit i acc)"
      by (subst lines_outer.simps) (simp only: True if_True)
    also have "\<dots> = lines_inner m ps checkLimit limit i acc
                 @ concat (map (row m ps checkLimit limit)
                     (filter (\<lambda>k. ?step dvd (k - (i + ?step))) [i + ?step..<limit]))"
      by (rule "1.IH"[OF True])
    also have "\<dots> = acc @ concat (map (row m ps checkLimit limit)
                     (i # filter (\<lambda>k. ?step dvd (k - (i + ?step))) [i + ?step..<limit]))"
      by (simp only: lines_inner_eq concat.simps append_assoc list.map)
    finally show ?thesis by (simp only: stride_unfold[OF pos True])
  next
    case False
    have "lines_outer isMobile m ps checkLimit limit i acc = acc"
      by (subst lines_outer.simps) (simp only: False if_False)
    moreover have "[i..<limit] = []" using False by simp
    ultimately show ?thesis by (simp only: filter.simps list.map concat.simps append_Nil2)
  qed
qed

lemma concat_rows:
  "concat (map (\<lambda>i. concat (map (seg i) (filter (P i) (js i)))) is)
     = concat (map (\<lambda>(i, j). seg i j)
         (filter (\<lambda>(i, j). P i j) (concat (map (\<lambda>i. map (\<lambda>j. (i, j)) (js i)) is))))"
proof (induction "is")
  case Nil
  show ?case by simp
next
  case (Cons i "is")
  have "concat (map (seg i) (filter (P i) (js i)))
          = concat (map (\<lambda>(i, j). seg i j) (filter (\<lambda>(i, j). P i j) (map (\<lambda>j. (i, j)) (js i))))"
    by (simp add: filter_map comp_def)
  then show ?case using Cons by simp
qed

lemma set_scan_pairs:
  "set (scan_pairs isMobile limit) =
     {(i, j). i < limit \<and> (if isMobile then 3 else 2) dvd i \<and> i < j
              \<and> j < i + (if isMobile then 15 else 40) \<and> j < limit}"
  by (auto simp: scan_pairs_def)

lemma lines_outer_scan:
  "lines_outer isMobile m ps (if isMobile then 15 else 40) limit 0 []
     = concat (map (\<lambda>(i, j). segment ps i j)
         (filter (\<lambda>(i, j). num_lt (pair_distSq ps i j) (Some (mode_threshold m)))
            (scan_pairs isMobile limit)))"
  unfolding lines_outer_eq scan_pairs_def row_def
  by (simp add: concat_rows[where seg = "segment ps"
        and P = "\<lambda>i j. num_lt (pair_distSq ps i j) (Some (mode_threshold m))"])

text \<open>
  Claim C4. \<open>updateLines\<close> hides the line mesh and leaves its segments as they are
  exactly when the mode is one of lorenz, quant, series, topology and calculus. In every
  other mode it shows the mesh and rebuilds the segments from the scanned index pairs
  \<open>(i, j)\<close>: \<open>i\<close> a multiple of 2 (desktop) or 3 (mobile) below the particle count, and
  \<open>i < j < i + 40\<close> (desktop) or \<open>i + 15\<close> (mobile), \<open>j\<close> below the particle count. The
  new segment list holds, in scan order, the segment of exactly those scanned pairs whose
  squared distance is below the threshold of the mode: 30 for neural, 8 for nash, 14 for
  matrix and 12 otherwise.
\<close>

theorem updateLines_scan:
  "updateLines cfg isMobile sc =
     (if mode cfg \<in> {''lorenz'', ''quant'', ''series'', ''topology'', ''calculus''}
      then sc\<lparr>lines_visible := False\<rparr>
      else sc\<lparr>lines_visible := True,
              line_positions :=
                concat (map (\<lambda>(i, j). segment (position_array sc) i j)
                  (filter (\<lambda>(i, j). num_lt (pair_distSq (position_array sc) i j)
                                            (Some (mode_threshold (mode cfg))))
                     (scan_pairs isMobile (particleCount cfg))))\<rparr>)
   \<and> set (scan_pairs isMobile (particleCount cfg)) =
       {(i, j). i < particleCount cfg \<and> (if isMobile then 3 else 2) dvd i \<and> i < j
                \<and> j < i + (if isMobile then 15 else 40) \<and> j < particleCount cfg}
   \<and> mode_threshold (mode cfg) =
       (if mode cfg = ''neural'' then 30 else if mode cfg = ''nash'' then 8
        else if mode cfg = ''matrix'' then 14 else 12)"
proof (intro conjI)
  show "updateLines cfg isMobile sc =
     (if mode cfg \<in> {''lorenz'', ''quant'', ''series'', ''topology'', ''calculus''}
      then sc\<lparr>lines_visible := False\<rparr>
      else sc\<lparr>lines_visible := True,
              line_positions :=
                concat (map (\<lambda>(i, j). segment (position_array sc) i j)
                  (filter (\<lambda>(i, j). num_lt (pair_distSq (position_array sc) i j)
                                            (Some (mode_threshold (mode cfg))))
                     (scan_pairs isMobile (particleCount cfg))))\<rparr>)"
  proof (cases "mode cfg \<in> {''lorenz'', ''quant'', ''series'', ''topology'', ''calculus''}")
    case True
    then have "mode cfg = ''lorenz'' \<or> mode cfg = ''quant'' \<or> mode cfg = ''series''
               \<or> mode cfg = ''topology'' \<or> mode cfg = ''calculus''"
      by blast
    then have "updateLines cfg isMobile sc = sc\<lparr>lines_visible := False\<rparr>"
      unfolding updateLines_def Let_def by (rule if_P)
    with True show ?thesis by (simp only: if_True)
  next
    case False
    then have "\<not> (mode cfg = ''lorenz'' \<or> mode cfg = ''quant'' \<or> mode cfg = ''series''
               \<or> mode cfg = ''topology'' \<or> mode cfg = ''calculus'')"
      by blast
    then have "updateLines cfg isMobile sc =
                 sc\<lparr>lines_visible := True,
                    line_positions := lines_outer isMobile (mode cfg) (position_array sc)
                                        (if isMobile then 15 else 40) (particleCount cfg) 0 []\<rparr>"
      unfolding updateLines_def Let_def by (rule if_not_P)
    with False show ?thesis by (simp only: if_False lines_outer_scan)
  qed
  show "set (scan_pairs isMobile (particleCount cfg)) =
       {(i, j). i < particleCount cfg \<and> (if isMobile then 3 else 2) dvd i \<and> i < j
                \<and> j < i + (if isMobile then 15 else 40) \<and> j < particleCount cfg}"
    by (rule set_scan_pairs)
  show "mode_threshold (mode cfg) =
       (if mode cfg = ''neural'' then 30 else if mode cfg = ''nash'' then 8
        else if mode cfg = ''matrix'' then 14 else 12)"
    by (simp add: mode_threshold_def)
qed

subsection \<open>Two particles\<close>

lemma scan_pairs_two: "scan_pairs isMobile 2 = [(0, Suc 0)]"
proof -
  have u: "[0..<2] = [0, Suc 0]" and w: "[Suc 0..<2] = [Suc 0]"
    by (simp_all add: numeral_2_eq_2)
  show ?thesis by (cases isMobile) (simp_all add: scan_pairs_def u w)
qed

lemma pair_distSq_two:
  "pair_distSq [Some x0, Some y0, Some z0, Some x1, Some y1, Some z1] 0 (Suc 0)
     = Some ((x0 - x1) * (x0 - x1) + (y0 - y1) * (y0 - y1) + (z0 - z1) * (z0 - z1))"
  by (simp add: pair_distSq_def f32_get_def)

lemma segment_two:
  "segment [Some x0, Some y0, Some z0, Some x1, Some y1, Some z1] 0 (Suc 0)
     = [Some x0, Some y0, Some z0, Some x1, Some y1, Some z1]"
  by (simp add: segment_def f32_get_def)

lemma lines_outer_two_nash:
  "lines_outer isMobile ''nash'' [Some x0, Some y0, Some z0, Some x1, Some y1, Some z1]
     (if isMobile then 15 else 40) 2 0 []
   = (if (x0 - x1) * (x0 - x1) + (y0 - y1) * (y0 - y1) + (z0 - z1) * (z0 - z1) < 8
      then [Some x0, Some y0, Some z0, Some x1, Some y1, Some z1] else [])"
  unfolding lines_outer_scan
  by (simp add: scan_pairs_two pair_distSq_two segment_two mode_threshold_def num_lt_def)

text \<open>
  Claim C3, as stated: with two particles at squared distance 9 in mode nash a segment
  is emitted. It is not: for the particles at \<open>(0, 0, 0)\<close> and \<open>(3, 0, 0)\<close>, which form a
  scanned pair at squared distance 9, the rebuilt segment list is empty.
\<close>

theorem nash_distance_9_counterexample:
  "pair_distSq [Some 0, Some 0, Some 0, Some 3, Some 0, Some 0] 0 1 = Some 9
   \<and> (0, 1) \<in> set (scan_pairs False (particleCount (config_with 2 ''nash'')))
   \<and> lines_visible (updateLines (config_with 2 ''nash'') False
        (scene_at [Some 0, Some 0, Some 0, Some 3, Some 0, Some 0]))
   \<and> line_positions (updateLines (config_with 2 ''nash'') False
        (scene_at [Some 0, Some 0, Some 0, Some 3, Some 0, Some 0])) = []"
proof -
  have n: "particleCount (config_with 2 ''nash'') = 2"
    by (simp add: config_with_def)
  have d: "pair_distSq [Some 0, Some 0, Some 0, Some 3, Some 0, Some 0] 0 (Suc 0) = Some 9"
    using pair_distSq_two[of 0 0 0 3 0 0] by simp
  have l: "lines_outer False ''nash'' [Some 0, Some 0, Some 0, Some 3, Some 0, Some 0] 40 2 0 [] = []"
    using lines_outer_two_nash[of False 0 0 0 3 0 0] by simp
  have u: "updateLines (config_with 2 ''nash'') False
             (scene_at [Some 0, Some 0, Some 0, Some 3, Some 0, Some 0])
           = (scene_at [Some 0, Some 0, Some 0, Some 3, Some 0, Some 0])
               \<lparr>lines_visible := True, line_positions := []\<rparr>"
    by (simp add: updateLines_def Let_def config_with_def scene_at_def l)
  show ?thesis unfolding u by (simp add: d n scan_pairs_two)
qed

subsection \<open>Mode nash\<close>

lemma nash_test:
  "num_lt x (Some (mode_threshold ''nash'')) = (case x of None \<Rightarrow> False | Some d \<Rightarrow> d < 8)"
  by (simp add: num_lt_def mode_threshold_def split: option.splits)

lemma scan_pairs_three: "scan_pairs False 3 = [(0, Suc 0), (0, 2)]"
proof -
  have u: "[0..<3] = [0, Suc 0, 2]" and w: "[Suc 0..<3] = [Suc 0, 2]"
    by (simp_all add: upt_rec)
  show ?thesis by (simp add: scan_pairs_def u w)
qed

text \<open>
  Claim C3, amended. In mode nash the emission test is \<open>distSq < 8\<close>, strictly, whatever
  the particle count and the viewport are: the line mesh is shown, and the rebuilt segment
  list holds, in scan order, the segment of exactly those scanned pairs whose squared
  distance is a number below 8. So a scanned pair at squared distance 9, or at squared
  distance exactly 8, gets no segment.
\<close>

theorem nash_pair_emission:
  assumes "mode cfg = ''nash''"
  shows "lines_visible (updateLines cfg isMobile sc)
       \<and> line_positions (updateLines cfg isMobile sc) =
           concat (map (\<lambda>(i, j). segment (position_array sc) i j)
             (filter (\<lambda>(i, j). case pair_distSq (position_array sc) i j of
                                  None \<Rightarrow> False | Some d \<Rightarrow> d < 8)
                (scan_pairs isMobile (particleCount cfg))))"
proof -
  have shown: "\<not> (mode cfg = ''lorenz'' \<or> mode cfg = ''quant'' \<or> mode cfg = ''series''
                   \<or> mode cfg = ''topology'' \<or> mode cfg = ''calculus'')"
    using assms by simp
  have u: "updateLines cfg isMobile sc =
             sc\<lparr>lines_visible := True,
                line_positions := lines_outer isMobile ''nash'' (position_array sc)
                                    (if isMobile then 15 else 40) (particleCount cfg) 0 []\<rparr>"
    using shown assms by (simp add: updateLines_def Let_def)
  have l: "lines_outer isMobile ''nash'' (position_array sc)
             (if isMobile then 15 else 40) (particleCount cfg) 0 []
           = concat (map (\<lambda>(i, j). segment (position_array sc) i j)
               (filter (\<lambda>(i, j). case pair_distSq (position_array sc) i j of
                                    None \<Rightarrow> False | Some d \<Rightarrow> d < 8)
                  (scan_pairs isMobile (particleCount cfg))))"
    unfolding lines_outer_scan nash_test by (rule refl)
  show ?thesis unfolding u l by simp
qed

theorem nash_pair_emission_witness:
  "mode (config_with 3 ''nash'') = ''nash''
   \<and> pair_distSq [Some 0, Some 0, Some 0, Some 2, Some 0, Some 0, Some 3, Some 0, Some 0] 0 1 = Some 4
   \<and> pair_distSq [Some 0, Some 0, Some 0, Some 2, Some 0, Some 0, Some 3, Some 0, Some 0] 0 2 = Some 9
   \<and> line_positions (updateLines (config_with 3 ''nash'') False
        (scene_at [Some 0, Some 0, Some 0, Some 2, Some 0, Some 0, Some 3, Some 0, Some 0]))
       = [Some 0, Some 0, Some 0, Some 2, Some 0, Some 0]
   \<and> pair_distSq [Some 0, Some 0, Some 0, Some 2, Some 2, Some 0, Some 1, Some 0, Some 0] 0 1 = Some 8
   \<and> line_positions (updateLines (config_with 3 ''nash'') False
        (scene_at [Some 0, Some 0, Some 0, Some 2, Some 2, Some 0, Some 1, Some 0, Some 0]))
       = [Some 0, Some 0, Some 0, Some 1, Some 0, Some 0]"
proof -
  have m: "mode (config_with 3 ''nash'') = ''nash''"
    and n: "particleCount (config_with 3 ''nash'') = 3"
    by (simp_all add: config_with_def)
  have p: "position_array (scene_at ps) = ps" for ps
    by (simp add: scene_at_def)
  show ?thesis
    using m
      nash_pair_emission[OF m, of False
        "scene_at [Some 0, Some 0, Some 0, Some 2, Some 0, Some 0, Some 3, Some 0, Some 0]"]
      nash_pair_emission[OF m, of False
        "scene_at [Some 0, Some 0, Some 0, Some 2, Some 2, Some 0, Some 1, Some 0, Some 0]"]
    unfolding n p scan_pairs_three
    by (simp add: pair_distSq_def segment_def f32_get_def)
qed

section \<open>One frame\<close>

lemma updateLines_arrays:
  "position_array (updateLines cfg isMobile sc) = position_array sc"
  "color_array (updateLines cfg isMobile sc) = color_array sc"
  by (simp_all add: updateLines_def Let_def)

lemma animate_color_array:
  "color_array (animate cfg tgs isMobile time mouse sc) =
     (if mode cfg = ''neural''
      then fold (pulse_particle (js_rem (time * 4) 40 - 20) (position_array sc))
             [0..<particleCount cfg] (color_array sc)
      else color_array sc)"
  by (simp add: animate_def Let_def updateLines_arrays)

lemma animate_position_array:
  "position_array (animate cfg tgs isMobile time mouse sc) =
     fold (move_particle (mode cfg) tgs time) [0..<particleCount cfg] (position_array sc)"
  by (simp add: animate_def Let_def updateLines_arrays)

text \<open>
  Claim C8. In every mode other than neural, one call of \<open>animate\<close> leaves the colour
  buffer as it was, so the particles keep the colours \<open>createParticles\<close> gave them.
\<close>

theorem colors_kept_outside_neural:
  assumes "mode cfg \<noteq> ''neural''"
  shows "color_array (animate cfg tgs isMobile time mouse sc) = color_array sc"
  using assms by (simp add: animate_color_array)

theorem colors_kept_outside_neural_witness:
  "mode (config_with 1 ''nash'') \<noteq> ''neural''
   \<and> color_array (animate (config_with 1 ''nash'') empty_targets False 7 (0, 0)
        (scene_at [Some 1, Some 2, Some 3])) = [Some 1, Some 1, Some 1]"
proof -
  have m: "mode (config_with 1 ''nash'') \<noteq> ''neural''"
    by (simp add: config_with_def)
  show ?thesis
    using m colors_kept_outside_neural[OF m, of empty_targets False 7 "(0, 0)" "scene_at [Some 1, Some 2, Some 3]"]
    by (simp add: scene_at_def)
qed

text \<open>
  In mode neural the frame does write the colour buffer: a particle that sits where the
  pulse is gets the colour \<open>(1, 1, 1)\<close>.
\<close>

lemma neural_pulse_example:
  "color_array (animate (config_with 1 ''neural'') empty_targets False 5 (0, 0)
     ((scene_at [Some 0, Some 2, Some 3])\<lparr>color_array := [Some 0.5, Some 0.5, Some 0.5]\<rparr>))
   = [Some 1, Some 1, Some 1]"
proof -
  have w: "js_rem 20 40 = 20" by (simp add: js_rem_def)
  have n: "[0..<particleCount (config_with 1 ''neural'')] = [0]" by (simp add: config_with_def)
  show ?thesis
    unfolding animate_color_array n
    by (simp add: config_with_def scene_at_def w pulse_particle_def f32_get_def Let_def)
qed

subsection \<open>The movement step in an unknown mode\<close>

lemma particle_target_unknown:
  "m \<notin> set known_modes \<Longrightarrow> particle_target m tgs time i = (Some 0, Some 0, Some 0)"
  by (simp add: known_modes_def particle_target_def Let_def)

lemma move_particle_unknown:
  assumes "m \<notin> set known_modes"
  shows "move_particle m tgs time i ps =
           ps[i * 3 := ease (f32_get ps (i * 3)) (Some 0),
              i * 3 + 1 := ease (f32_get ps (i * 3 + 1)) (Some 0),
              i * 3 + 2 := ease (f32_get ps (i * 3 + 2)) (Some 0)]"
  by (simp add: move_particle_def Let_def particle_target_unknown[OF assms] f32_get_def)

lemma ease_fold:
  "length (fold (\<lambda>i ps. ps[i * 3 := g (f32_get ps (i * 3)),
                           i * 3 + 1 := g (f32_get ps (i * 3 + 1)),
                           i * 3 + 2 := g (f32_get ps (i * 3 + 2))]) [0..<n] ps) = length ps
   \<and> (\<forall>k < length ps.
        fold (\<lambda>i ps. ps[i * 3 := g (f32_get ps (i * 3)),
                          i * 3 + 1 := g (f32_get ps (i * 3 + 1)),
                          i * 3 + 2 := g (f32_get ps (i * 3 + 2))]) [0..<n] ps ! k
          = (if k < 3 * n then g (ps ! k) else ps ! k))"
proof (induction n)
  case 0
  show ?case by simp
next
  case (Suc n)
  let ?F = "\<lambda>i ps. ps[i * 3 := g (f32_get ps (i * 3)),
                          i * 3 + 1 := g (f32_get ps (i * 3 + 1)),
                          i * 3 + 2 := g (f32_get ps (i * 3 + 2))]"
  let ?q = "fold ?F [0..<n] ps"
  from Suc have len: "length ?q = length ps"
    and nth: "\<And>k. k < length ps \<Longrightarrow> ?q ! k = (if k < 3 * n then g (ps ! k) else ps ! k)"
    by blast+
  have step: "fold ?F [0..<Suc n] ps = ?F n ?q" by simp
  have "length (?F n ?q) = length ps" using len by simp
  moreover have "?F n ?q ! k = (if k < 3 * Suc n then g (ps ! k) else ps ! k)"
    if k: "k < length ps" for k
  proof -
    consider "k = n * 3" | "k = n * 3 + 1" | "k = n * 3 + 2" | "k < n * 3" | "n * 3 + 2 < k"
      by arith
    then show ?thesis
      using k len nth[OF k] by cases (auto simp: f32_get_def nth_list_update)
  qed
  ultimately show ?case unfolding step by blast
qed

lemma animate_unknown_positions:
  assumes "mode cfg \<notin> set known_modes"
  shows "length (position_array (animate cfg tgs isMobile time mouse sc)) = length (position_array sc)"
    and "k < length (position_array sc) \<Longrightarrow>
         position_array (animate cfg tgs isMobile time mouse sc) ! k
           = (if k < 3 * particleCount cfg then ease (position_array sc ! k) (Some 0)
              else position_array sc ! k)"
proof -
  have f: "move_particle (mode cfg) tgs time
             = (\<lambda>i ps. ps[i * 3 := (\<lambda>p. ease p (Some 0)) (f32_get ps (i * 3)),
                           i * 3 + 1 := (\<lambda>p. ease p (Some 0)) (f32_get ps (i * 3 + 1)),
                           i * 3 + 2 := (\<lambda>p. ease p (Some 0)) (f32_get ps (i * 3 + 2))])"
    by (intro ext) (simp add: move_particle_unknown[OF assms])
  note e = ease_fold[of "\<lambda>p. ease p (Some 0)" "particleCount cfg" "position_array sc"]
  show "length (position_array (animate cfg tgs isMobile time mouse sc)) = length (position_array sc)"
    unfolding animate_position_array f using e by blast
  show "position_array (animate cfg tgs isMobile time mouse sc) ! k
           = (if k < 3 * particleCount cfg then ease (position_array sc ! k) (Some 0)
              else position_array sc ! k)" if "k < length (position_array sc)"
    unfolding animate_position_array f using e that by blast
qed

lemma ease_origin: "ease (Some p) (Some 0) = Some (p + (0 - p) * 0.04)"
  by (simp add: ease_def num_add_def num_sub_def num_mul_def)

text \<open>
  Claim C9. When the active mode is a string outside the twelve known modes, the movement
  step of a frame takes \<open>(0, 0, 0)\<close> as the target of every particle, and every coordinate
  \<open>p\<close> of every particle becomes \<open>p + (0 - p) * 0.04\<close>: it is eased towards the origin by
  the fraction 0.04. Cells of the position buffer beyond the particles are not touched.
\<close>

theorem unknown_mode_eases_to_origin:
  assumes "mode cfg \<notin> set known_modes" and "k < length (position_array sc)"
  shows "particle_target (mode cfg) tgs time i = (Some 0, Some 0, Some 0)
       \<and> length (position_array (animate cfg tgs isMobile time mouse sc)) = length (position_array sc)
       \<and> position_array (animate cfg tgs isMobile time mouse sc) ! k
           = (if k < 3 * particleCount cfg then ease (position_array sc ! k) (Some 0)
              else position_array sc ! k)
       \<and> ease (Some p) (Some 0) = Some (p + (0 - p) * 0.04)"
  using particle_target_unknown[OF assms(1)] animate_unknown_positions[OF assms(1)] assms(2)
        ease_origin
  by simp

theorem unknown_mode_eases_to_origin_witness:
  "mode (config_with 1 ''limitless'') \<notin> set known_modes
   \<and> (1::nat) < length (position_array (scene_at [Some 100, Some 50, Some (- 25), Some 7]))
   \<and> particle_target (mode (config_with 1 ''limitless'')) empty_targets 7 0 = (Some 0, Some 0, Some 0)
   \<and> position_array (animate (config_with 1 ''limitless'') empty_targets False 7 (0, 0)
        (scene_at [Some 100, Some 50, Some (- 25), Some 7])) ! 1 = Some 48"
proof -
  have m: "mode (config_with 1 ''limitless'') \<notin> set known_modes"
    by (simp add: config_with_def known_modes_def)
  have k: "(1::nat) < length (position_array (scene_at [Some 100, Some 50, Some (- 25), Some 7]))"
    by (simp add: scene_at_def)
  have n: "particleCount (config_with 1 ''limitless'') = 1"
    by (simp add: config_with_def)
  have p: "position_array (scene_at [Some 100, Some 50, Some (- 25), Some 7]) ! 1 = Some 50"
    by (simp add: scene_at_def)
  show ?thesis
    using m k unknown_mode_eases_to_origin[OF m k, of empty_targets 7 0 False "(0, 0)" 50]
    unfolding n p by simp
qed

section \<open>Switching modes\<close>

lemma description_keys_eq: "set description_keys = set known_modes"
  by (auto simp: description_keys_def VIZ_DESCRIPTIONS_entries_def known_modes_def)

lemma VIZ_DESCRIPTIONS_key:
  assumes "m \<in> set description_keys"
  shows "VIZ_DESCRIPTIONS m \<in> Description ` snd ` set VIZ_DESCRIPTIONS_entries"
proof -
  from assms have "map_of VIZ_DESCRIPTIONS_entries m \<noteq> None"
    by (simp add: description_keys_def map_of_eq_None_iff)
  then obtain e where e: "map_of VIZ_DESCRIPTIONS_entries m = Some e" by blast
  then have "(m, e) \<in> set VIZ_DESCRIPTIONS_entries" by (rule map_of_SomeD)
  then have "e \<in> snd ` set VIZ_DESCRIPTIONS_entries" by force
  then show ?thesis by (simp add: VIZ_DESCRIPTIONS_def e)
qed

lemma VIZ_DESCRIPTIONS_unknown:
  assumes "m \<notin> set description_keys" and "m \<notin> set inherited_names"
  shows "VIZ_DESCRIPTIONS m = Undefined"
proof -
  have "map_of VIZ_DESCRIPTIONS_entries m = None"
    using assms(1) by (simp add: description_keys_def map_of_eq_None_iff)
  moreover have "map_of object_prototype m = None"
    using assms(2) by (simp add: inherited_names_def map_of_eq_None_iff)
  ultimately show ?thesis by (simp add: VIZ_DESCRIPTIONS_def)
qed

lemma insight_callback_stores:
  assumes "\<And>f. VIZ_DESCRIPTIONS m \<noteq> Function_value f"
  shows "insight_callback m pg = Inr (pg\<lparr>insight := VIZ_DESCRIPTIONS m, isUpdatingInsight := False\<rparr>)"
  using assms by (cases "VIZ_DESCRIPTIONS m") (auto simp: insight_callback_def setInsight_def)

lemma insight_callback_key:
  assumes "m \<in> set description_keys"
  shows "insight_callback m pg = Inr (pg\<lparr>insight := VIZ_DESCRIPTIONS m, isUpdatingInsight := False\<rparr>)"
proof (rule insight_callback_stores)
  fix f
  from VIZ_DESCRIPTIONS_key[OF assms] show "VIZ_DESCRIPTIONS m \<noteq> Function_value f" by auto
qed

lemma insight_callback_unknown:
  assumes "m \<notin> set description_keys" and "m \<notin> set inherited_names"
  shows "insight_callback m pg = Inr (pg\<lparr>insight := Undefined, isUpdatingInsight := False\<rparr>)"
  using insight_callback_stores[of m pg] VIZ_DESCRIPTIONS_unknown[OF assms] by simp

lemma mode_changeVizMode: "mode (configRef (changeVizMode m pg)) = m"
  by (simp add: changeVizMode_def)

lemma timers_changeVizMode: "timers (changeVizMode m pg) = timers pg @ [(now pg + 500, m)]"
  by (simp add: changeVizMode_def)

lemma elapse_after_switch:
  assumes "timers pg = []"
  shows "elapse d (changeVizMode m pg) =
           (if d < 500
            then Inr ((changeVizMode m pg)\<lparr>now := now pg + d\<rparr>)
            else insight_callback m ((changeVizMode m pg)\<lparr>now := now pg + d, timers := []\<rparr>))"
  using assms by (simp add: elapse_def changeVizMode_def Let_def)

lemma settled_initial: "settled (initial_page g w)"
  by (simp add: settled_def initial_page_def)

text \<open>
  Claim C7, as stated: after any call of the switcher the description on display stays
  the previous mode's until 500 ms have passed. It does not when the swap of an earlier
  call is still pending. The page switches from graph to orbit, and 100 ms later, when the
  active mode is orbit, to matrix: right after the second call the description on display
  is the one of graph, not the one of orbit, and 400 ms after the second call it has
  changed to the one of orbit.
\<close>

theorem rapid_switch_counterexample:
  "elapse 100 (changeVizMode ''orbit'' (initial_page gold_rgb white_rgb)) = Inr orbit_page_at_100
   \<and> mode (configRef orbit_page_at_100) = ''orbit''
   \<and> displayed (elapse 0 (changeVizMode ''matrix'' orbit_page_at_100)) = Inr (VIZ_DESCRIPTIONS ''graph'')
   \<and> displayed (elapse 400 (changeVizMode ''matrix'' orbit_page_at_100)) = Inr (VIZ_DESCRIPTIONS ''orbit'')
   \<and> VIZ_DESCRIPTIONS ''graph'' \<noteq> VIZ_DESCRIPTIONS ''orbit''"
proof -
  have g: "VIZ_DESCRIPTIONS ''graph'' = Description (\<lparr>title = ''Network Theory'',
        body_text = ''You are seeing an Erdos-Renyi random graph. Particles represent nodes, and lines represent edges. The gentle float simulates the dynamic nature of social or data networks.''\<rparr>)"
    by (simp add: VIZ_DESCRIPTIONS_def VIZ_DESCRIPTIONS_entries_def)
  have o: "VIZ_DESCRIPTIONS ''orbit'' = Description (\<lparr>title = ''Orbital Mechanics'',
        body_text = ''Particles are arranged in concentric rings using polar coordinates (r, theta). This visualizes Keplerian orbits or electron shells in physics.''\<rparr>)"
    by (simp add: VIZ_DESCRIPTIONS_def VIZ_DESCRIPTIONS_entries_def)
  have a: "elapse 100 (changeVizMode ''orbit'' (initial_page gold_rgb white_rgb)) = Inr orbit_page_at_100"
    by (simp add: elapse_def changeVizMode_def initial_page_def orbit_page_at_100_def Let_def)
  have b: "mode (configRef orbit_page_at_100) = ''orbit''"
    by (simp add: orbit_page_at_100_def changeVizMode_def)
  have c: "displayed (elapse 0 (changeVizMode ''matrix'' orbit_page_at_100)) = Inr (VIZ_DESCRIPTIONS ''graph'')"
    by (simp add: elapse_def changeVizMode_def initial_page_def orbit_page_at_100_def Let_def
          displayed_def)
  have d: "displayed (elapse 400 (changeVizMode ''matrix'' orbit_page_at_100)) = Inr (VIZ_DESCRIPTIONS ''orbit'')"
    by (simp add: elapse_def changeVizMode_def initial_page_def orbit_page_at_100_def Let_def
          displayed_def insight_callback_def setInsight_def o)
  have e: "VIZ_DESCRIPTIONS ''graph'' \<noteq> VIZ_DESCRIPTIONS ''orbit''"
    unfolding g o by simp
  show ?thesis using a b c d e by blast
qed

text \<open>
  Claim C7, amended. A call of the switcher with any identifier \<open>m\<close> makes \<open>m\<close> the
  active mode at once. When \<open>m\<close> is one of the twelve keys of the description table and
  the page is settled (no swap pending, the description of the active mode on display),
  then, as long as no other call is made, \<open>m\<close> stays the active mode, the description on
  display stays the previous mode's during the first 500 ms after the call and is the
  entry of \<open>m\<close> in the description table from then on.
\<close>

theorem switch_from_settled:
  "mode (configRef (changeVizMode m pg)) = m
   \<and> (settled pg \<and> m \<in> set description_keys \<longrightarrow>
        active_mode (elapse d (changeVizMode m pg)) = Inr m
      \<and> displayed (elapse d (changeVizMode m pg))
          = Inr (if d < 500 then VIZ_DESCRIPTIONS (mode (configRef pg)) else VIZ_DESCRIPTIONS m)
      \<and> VIZ_DESCRIPTIONS m \<in> Description ` snd ` set VIZ_DESCRIPTIONS_entries)"
proof (intro conjI impI)
  show "mode (configRef (changeVizMode m pg)) = m" by (rule mode_changeVizMode)
next
  assume h: "settled pg \<and> m \<in> set description_keys"
  then have t: "timers pg = []" and i: "insight pg = VIZ_DESCRIPTIONS (mode (configRef pg))"
    and k: "m \<in> set description_keys"
    by (simp_all add: settled_def)
  have e: "elapse d (changeVizMode m pg) =
             (if d < 500
              then Inr ((changeVizMode m pg)\<lparr>now := now pg + d\<rparr>)
              else Inr ((changeVizMode m pg)\<lparr>now := now pg + d, timers := [],
                         insight := VIZ_DESCRIPTIONS m, isUpdatingInsight := False\<rparr>))"
    unfolding elapse_after_switch[OF t] insight_callback_key[OF k] by simp
  show "active_mode (elapse d (changeVizMode m pg)) = Inr m"
    unfolding e by (simp add: active_mode_def changeVizMode_def)
  show "displayed (elapse d (changeVizMode m pg))
          = Inr (if d < 500 then VIZ_DESCRIPTIONS (mode (configRef pg)) else VIZ_DESCRIPTIONS m)"
    unfolding e by (simp add: displayed_def changeVizMode_def i)
  show "VIZ_DESCRIPTIONS m \<in> Description ` snd ` set VIZ_DESCRIPTIONS_entries"
    using k by (rule VIZ_DESCRIPTIONS_key)
qed

theorem switch_from_settled_witness:
  "settled (initial_page gold_rgb white_rgb) \<and> ''orbit'' \<in> set description_keys
   \<and> mode (configRef (changeVizMode ''orbit'' (initial_page gold_rgb white_rgb))) = ''orbit''
   \<and> active_mode (elapse 499 (changeVizMode ''orbit'' (initial_page gold_rgb white_rgb))) = Inr ''orbit''
   \<and> displayed (elapse 499 (changeVizMode ''orbit'' (initial_page gold_rgb white_rgb)))
       = Inr (VIZ_DESCRIPTIONS ''graph'')
   \<and> displayed (elapse 500 (changeVizMode ''orbit'' (initial_page gold_rgb white_rgb)))
       = Inr (VIZ_DESCRIPTIONS ''orbit'')"
proof -
  have m: "mode (configRef (initial_page gold_rgb white_rgb)) = ''graph''"
    by (simp add: initial_page_def)
  have k: "''orbit'' \<in> set description_keys"
    by (simp add: description_keys_eq known_modes_def)
  show ?thesis
    using switch_from_settled[of "''orbit''" "initial_page gold_rgb white_rgb" 499]
          switch_from_settled[of "''orbit''" "initial_page gold_rgb white_rgb" 500]
          settled_initial[of gold_rgb white_rgb] m k
    by simp
qed

text \<open>
  Claim C10, as stated: for every identifier outside the twelve keys of the description
  table the deferred lookup yields \<open>undefined\<close> and the description on display is set to
  it. It does not for a name that the table inherits: \<open>constructor\<close> is not one of the
  twelve keys, the lookup finds the function \<open>Object\<close>, the setter runs it on the current
  description, and the description of graph stays on display.
\<close>

theorem inherited_name_counterexample:
  "''constructor'' \<notin> set description_keys
   \<and> VIZ_DESCRIPTIONS ''constructor'' = Function_value ''Object''
   \<and> VIZ_DESCRIPTIONS ''constructor'' \<noteq> Undefined
   \<and> displayed (elapse 500 (changeVizMode ''constructor'' (initial_page gold_rgb white_rgb)))
       = Inr (VIZ_DESCRIPTIONS ''graph'')
   \<and> VIZ_DESCRIPTIONS ''graph'' \<noteq> Undefined"
proof -
  have k: "''constructor'' \<notin> set description_keys"
    by (simp add: description_keys_eq known_modes_def)
  have c: "VIZ_DESCRIPTIONS ''constructor'' = Function_value ''Object''"
    by (simp add: VIZ_DESCRIPTIONS_def VIZ_DESCRIPTIONS_entries_def object_prototype_def)
  have g: "VIZ_DESCRIPTIONS ''graph'' = Description (\<lparr>title = ''Network Theory'',
        body_text = ''You are seeing an Erdos-Renyi random graph. Particles represent nodes, and lines represent edges. The gentle float simulates the dynamic nature of social or data networks.''\<rparr>)"
    by (simp add: VIZ_DESCRIPTIONS_def VIZ_DESCRIPTIONS_entries_def)
  have t: "timers (initial_page gold_rgb white_rgb) = []"
    and i: "insight (initial_page gold_rgb white_rgb) = VIZ_DESCRIPTIONS ''graph''"
    by (simp_all add: initial_page_def)
  have "displayed (elapse 500 (changeVizMode ''constructor'' (initial_page gold_rgb white_rgb)))
          = Inr (VIZ_DESCRIPTIONS ''graph'')"
    unfolding elapse_after_switch[OF t]
    by (simp add: insight_callback_def setInsight_def c call_builtin_def changeVizMode_def i g
          displayed_def)
  then show ?thesis using k c g by simp
qed

text \<open>
  Claim C10, amended. The switcher takes any string: it makes it the active mode and
  sets the timer without looking at it. For an identifier \<open>m\<close> that is neither one of the
  twelve keys of the description table nor a name the table inherits from
  \<open>Object.prototype\<close>, the lookup in the table yields \<open>undefined\<close>, so the callback of
  the timer sets the description on display to \<open>undefined\<close>; on a page with no other swap
  pending this happens 500 ms after the call.
\<close>

theorem unknown_mode_insight_undefined:
  assumes "m \<notin> set description_keys" and "m \<notin> set inherited_names"
  shows "mode (configRef (changeVizMode m pg)) = m
       \<and> timers (changeVizMode m pg) = timers pg @ [(now pg + 500, m)]
       \<and> VIZ_DESCRIPTIONS m = Undefined
       \<and> displayed (insight_callback m pg') = Inr Undefined
       \<and> (timers pg = [] \<longrightarrow>
            displayed (elapse d (changeVizMode m pg)) = Inr (if d < 500 then insight pg else Undefined))"
proof (intro conjI impI)
  show "mode (configRef (changeVizMode m pg)) = m" by (rule mode_changeVizMode)
  show "timers (changeVizMode m pg) = timers pg @ [(now pg + 500, m)]" by (rule timers_changeVizMode)
  show "VIZ_DESCRIPTIONS m = Undefined" using assms by (rule VIZ_DESCRIPTIONS_unknown)
  show "displayed (insight_callback m pg') = Inr Undefined"
    by (simp add: insight_callback_unknown[OF assms] displayed_def)
next
  assume t: "timers pg = []"
  show "displayed (elapse d (changeVizMode m pg)) = Inr (if d < 500 then insight pg else Undefined)"
    unfolding elapse_after_switch[OF t] insight_callback_unknown[OF assms]
    by (simp add: displayed_def changeVizMode_def)
qed

theorem unknown_mode_insight_undefined_witness:
  "''limitless'' \<notin> set description_keys \<and> ''limitless'' \<notin> set inherited_names
   \<and> timers (initial_page gold_rgb white_rgb) = []
   \<and> mode (configRef (changeVizMode ''limitless'' (initial_page gold_rgb white_rgb))) = ''limitless''
   \<and> VIZ_DESCRIPTIONS ''limitless'' = Undefined
   \<and> displayed (elapse 499 (changeVizMode ''limitless'' (initial_page gold_rgb white_rgb)))
       = Inr (VIZ_DESCRIPTIONS ''graph'')
   \<and> displayed (elapse 500 (changeVizMode ''limitless'' (initial_page gold_rgb white_rgb)))
       = Inr Undefined"
proof -
  have k: "''limitless'' \<notin> set description_keys"
    by (simp add: description_keys_eq known_modes_def)
  have h: "''limitless'' \<notin> set inherited_names"
    by (simp add: inherited_names_def object_prototype_def)
  have t: "timers (initial_page gold_rgb white_rgb) = []"
    and i: "insight (initial_page gold_rgb white_rgb) = VIZ_DESCRIPTIONS ''graph''"
    by (simp_all add: initial_page_def)
  show ?thesis
    using k h t i
      unknown_mode_insight_undefined[OF k h, of "initial_page gold_rgb white_rgb"
        "initial_page gold_rgb white_rgb" 499]
      unknown_mode_insight_undefined[OF k h, of "initial_page gold_rgb white_rgb"
        "initial_page gold_rgb white_rgb" 500]
    by simp
qed

end
